theory Spec2Isabelle
  imports Complex_Main "HOL-Library.Log_Nat"
begin

section \<open>JavaScript values used by the parser\<close>

text \<open>
  A JavaScript string is a sequence of UTF-16 code units. It is modelled as a \<open>string\<close>;
  one \<open>char\<close> stands for one code unit, so the model covers the code units 0 to 255.
  A JavaScript number is a double: not-a-number, an infinity, or a finite value, kept here
  as the real number it denotes (negative zero is identified with zero).
\<close>

datatype number = NaN | NegInf | Fin real | PosInf

fun isNaN :: "number \<Rightarrow> bool" where
  "isNaN NaN = True"
| "isNaN _ = False"

text \<open>The comparison \<open>a < b\<close> of two numbers; it is false as soon as one side is NaN.\<close>

fun num_less :: "number \<Rightarrow> number \<Rightarrow> bool" where
  "num_less NaN _ = False"
| "num_less _ NaN = False"
| "num_less _ NegInf = False"
| "num_less NegInf _ = True"
| "num_less PosInf _ = False"
| "num_less (Fin a) PosInf = True"
| "num_less (Fin a) (Fin b) = (a < b)"

text \<open>\<open>Math.max\<close> and \<open>Math.min\<close> of two arguments: NaN if either argument is NaN.\<close>

fun math_max :: "number \<Rightarrow> number \<Rightarrow> number" where
  "math_max NaN _ = NaN"
| "math_max _ NaN = NaN"
| "math_max a b = (if num_less a b then b else a)"

fun math_min :: "number \<Rightarrow> number \<Rightarrow> number" where
  "math_min NaN _ = NaN"
| "math_min _ NaN = NaN"
| "math_min a b = (if num_less b a then b else a)"

text \<open>
  \<open>ToIntegerOrInfinity\<close> followed by the clamping into \<open>[0, len]\<close> that
  \<open>String.prototype.slice\<close> and \<open>substring\<close> apply to a non-negative bound:
  NaN becomes 0, a finite value is truncated towards zero.
\<close>

fun to_index :: "nat \<Rightarrow> number \<Rightarrow> nat" where
  "to_index len NaN = 0"
| "to_index len NegInf = 0"
| "to_index len PosInf = len"
| "to_index len (Fin x) = (if x < 0 then 0 else min (nat \<lfloor>x\<rfloor>) len)"

text \<open>
  \<open>s.slice(a, b)\<close> for bounds that are not negative (a negative bound would count from
  the end; the parser never passes one): the code units from \<open>a\<close> up to \<open>b\<close>, empty when
  \<open>b \<le> a\<close>.
\<close>

definition str_slice :: "string \<Rightarrow> number \<Rightarrow> number \<Rightarrow> string" where
  "str_slice s a b =
     (let i = to_index (length s) a; j = to_index (length s) b
      in take (j - i) (drop i s))"

section \<open>Source fragments (source.ts)\<close>

text \<open>
  The field \<open>text\<close> of the class is \<open>text_of\<close> here. \<open>row\<close> and \<open>column\<close> are numbers that
  the parser only ever sets to whole numbers and increments by one; they are integers in
  the model.
\<close>

record SourceFragment =
  text_of :: string
  row :: int
  column :: int
  source :: "string option"
  lineText :: string

text \<open>
  \<open>clamp(value, min, max)\<close>: NaN gives \<open>min\<close>, anything else
  \<open>Math.min(Math.max(value, min), max)\<close>.
\<close>

definition clamp :: "number \<Rightarrow> number \<Rightarrow> number \<Rightarrow> number" where
  "clamp v lo hi = (if isNaN v then lo else math_min (math_max v lo) hi)"

text \<open>
  The loop of \<open>advance\<close>: \<open>for (let i = 0; i < length; i += 1)\<close> over \<open>this.text[i]\<close>.
  A line feed starts a new row, a carriage return goes back to column 1 of the same row,
  every other code unit moves one column to the right. Reading past the end of the text
  gives \<open>undefined\<close>, which is neither of the two.
\<close>

function advance_loop :: "string \<Rightarrow> nat \<Rightarrow> real \<Rightarrow> int \<times> int \<Rightarrow> int \<times> int" where
  "advance_loop t i len (r, c) =
     (if real i < len then
        (if i < length t \<and> t ! i = CHR 0x0A then advance_loop t (Suc i) len (r + 1, 1)
         else if i < length t \<and> t ! i = CHR 0x0D then advance_loop t (Suc i) len (r, 1)
         else advance_loop t (Suc i) len (r, c + 1))
      else (r, c))"
  by pat_completeness auto
termination
  by (relation "measure (\<lambda>(t, i, len, p). nat \<lceil>len\<rceil> - i)") (auto, linarith+)

declare advance_loop.simps [simp del]

text \<open>
  \<open>advance(offset)\<close>: the bound is \<open>Math.min(Math.max(offset, 0), this.text.length)\<close>.
  It is NaN for a NaN offset (the loop test is then false at once) and otherwise lies
  between 0 and the length of the text.
\<close>

definition advance :: "SourceFragment \<Rightarrow> number \<Rightarrow> int \<times> int" where
  "advance f offset =
     (case math_min (math_max offset (Fin 0)) (Fin (real (length (text_of f)))) of
        Fin len \<Rightarrow> advance_loop (text_of f) 0 len (row f, column f)
      | _ \<Rightarrow> (row f, column f))"

text \<open>
  \<open>slice(start = 0, end?)\<close>: an omitted \<open>start\<close> is 0, an omitted \<open>end\<close> is the length
  of the text. The new fragment keeps \<open>source\<close> and \<open>lineText\<close>.
\<close>

definition actualStart :: "SourceFragment \<Rightarrow> number option \<Rightarrow> number" where
  "actualStart f start =
     clamp (case start of None \<Rightarrow> Fin 0 | Some s \<Rightarrow> s) (Fin 0) (Fin (real (length (text_of f))))"

definition actualEnd :: "SourceFragment \<Rightarrow> number option \<Rightarrow> number option \<Rightarrow> number" where
  "actualEnd f start endn =
     clamp (case endn of None \<Rightarrow> Fin (real (length (text_of f))) | Some e \<Rightarrow> e)
       (actualStart f start) (Fin (real (length (text_of f))))"

definition slice :: "SourceFragment \<Rightarrow> number option \<Rightarrow> number option \<Rightarrow> SourceFragment" where
  "slice f start endn =
     (let newText = str_slice (text_of f) (actualStart f start) (actualEnd f start endn);
          (r, c) = advance f (actualStart f start)
      in \<lparr>text_of = newText, row = r, column = c, source = source f, lineText = lineText f\<rparr>)"

section \<open>Strings and numbers of the host language\<close>

text \<open>
  A property that may hold \<open>null\<close>, \<open>undefined\<close> or a value. \<open>undefined\<close> arises when
  the code reads past the end of an array or misses a key of a \<open>Map\<close>.
\<close>

datatype 'a js = Null | Undefined | Def 'a

text \<open>\<open>!x\<close> on a property holding a string: true for null, undefined and the empty string.\<close>

fun falsy :: "string js \<Rightarrow> bool" where
  "falsy (Def s) = (s = [])"
| "falsy _ = True"

definition startsWith :: "string \<Rightarrow> string \<Rightarrow> bool" where
  "startsWith s p = (take (length p) s = p)"

definition endsWith :: "string \<Rightarrow> string \<Rightarrow> bool" where
  "endsWith s p = (length p \<le> length s \<and> drop (length s - length p) s = p)"

text \<open>
  \<open>s.substring(a, b)\<close> on integer arguments: both are clamped into \<open>[0, length]\<close> and
  swapped when the first is larger.
\<close>

definition substring :: "string \<Rightarrow> int \<Rightarrow> int \<Rightarrow> string" where
  "substring s a b =
     (let n = int (length s);
          a' = max 0 (min a n); b' = max 0 (min b n);
          lo = min a' b'; hi = max a' b'
      in take (nat (hi - lo)) (drop (nat lo) s))"

text \<open>
  White space as \<open>trim\<close>, the class \<open>\s\<close> and \<open>parseInt\<close> see it, among the code units
  0 to 255: tab, line feed, vertical tab, form feed, carriage return, space, no-break space.
\<close>

definition is_ws :: "char \<Rightarrow> bool" where
  "is_ws c = (c \<in> set [CHR 0x09, CHR 0x0A, CHR 0x0B, CHR 0x0C, CHR 0x0D, CHR 0x20, CHR 0xA0])"

definition trimStart :: "string \<Rightarrow> string" where
  "trimStart s = dropWhile is_ws s"

definition trimEnd :: "string \<Rightarrow> string" where
  "trimEnd s = rev (dropWhile is_ws (rev s))"

definition trim :: "string \<Rightarrow> string" where
  "trim s = trimEnd (trimStart s)"

definition is_digit :: "char \<Rightarrow> bool" where
  "is_digit c = (48 \<le> (of_char c :: nat) \<and> (of_char c :: nat) \<le> 57)"

text \<open>The value of a digit of \<open>parseInt\<close>: \<open>0-9\<close>, then \<open>a-z\<close> or \<open>A-Z\<close> for 10 to 35.\<close>

definition digit_value :: "char \<Rightarrow> nat option" where
  "digit_value c =
     (let n = (of_char c :: nat)
      in if 48 \<le> n \<and> n \<le> 57 then Some (n - 48)
         else if 97 \<le> n \<and> n \<le> 122 then Some (n - 87)
         else if 65 \<le> n \<and> n \<le> 90 then Some (n - 55)
         else None)"

definition is_radix_digit :: "nat \<Rightarrow> char \<Rightarrow> bool" where
  "is_radix_digit R c = (case digit_value c of None \<Rightarrow> False | Some d \<Rightarrow> d < R)"

text \<open>The integer that a string of digits denotes in radix \<open>R\<close>.\<close>

definition digits_value :: "nat \<Rightarrow> string \<Rightarrow> nat" where
  "digits_value R ds = foldl (\<lambda>acc c. acc * R + (case digit_value c of None \<Rightarrow> 0 | Some d \<Rightarrow> d)) 0 ds"

text \<open>
  The double nearest to an integer (ties to even), as every conversion of a mathematical
  value to a Number rounds: exact below \<open>2^53\<close>, an infinity from \<open>2^1024\<close> on.
\<close>

definition round_to_double :: "int \<Rightarrow> number" where
  "round_to_double n =
     (let m = \<bar>n\<bar> in
      if m < 2 ^ 53 then Fin (of_int n)
      else
        let e = nat (bitlen m - 53);
            q = m div 2 ^ e; r = m mod 2 ^ e; h = 2 ^ (e - 1);
            q' = (if h < r \<or> (r = h \<and> odd q) then q + 1 else q);
            v = q' * 2 ^ e
        in if 2 ^ 1024 \<le> v then (if n < 0 then NegInf else PosInf)
           else Fin (of_int (sgn n * v)))"

text \<open>The product of two numbers.\<close>

fun num_mult :: "number \<Rightarrow> number \<Rightarrow> number" where
  "num_mult NaN _ = NaN"
| "num_mult _ NaN = NaN"
| "num_mult (Fin a) (Fin b) = Fin (a * b)"
| "num_mult (Fin a) PosInf = (if a = 0 then NaN else if 0 < a then PosInf else NegInf)"
| "num_mult (Fin a) NegInf = (if a = 0 then NaN else if 0 < a then NegInf else PosInf)"
| "num_mult PosInf (Fin b) = (if b = 0 then NaN else if 0 < b then PosInf else NegInf)"
| "num_mult NegInf (Fin b) = (if b = 0 then NaN else if 0 < b then NegInf else PosInf)"
| "num_mult PosInf PosInf = PosInf"
| "num_mult NegInf NegInf = PosInf"
| "num_mult PosInf NegInf = NegInf"
| "num_mult NegInf PosInf = NegInf"

text \<open>
  \<open>parseInt(string, radix)\<close> as ECMA-262 defines it: leading white space is skipped, one
  sign is read, a radix outside 2 to 36 (other than 0) gives NaN, for radix 16 (or 0) a
  prefix \<open>0x\<close> or \<open>0X\<close> is skipped, and the longest run of digits of the radix is converted;
  with no such digit the result is NaN. Whatever follows the digits is ignored.
\<close>

definition parseInt :: "string \<Rightarrow> nat \<Rightarrow> number" where
  "parseInt str radix =
     (let S = trimStart str;
          sign = (if startsWith S ''-'' then - 1 else 1 :: int);
          S = (if startsWith S ''+'' \<or> startsWith S ''-'' then drop 1 S else S);
          stripPrefix = (radix = 0 \<or> radix = 16);
          R = (if radix = 0 then 10 else radix)
      in if radix \<noteq> 0 \<and> (radix < 2 \<or> 36 < radix) then NaN
         else
           let hex = (stripPrefix \<and> (startsWith S ''0x'' \<or> startsWith S ''0X''));
               S = (if hex then drop 2 S else S);
               R = (if hex then 16 else R);
               Z = takeWhile (is_radix_digit R) S
           in if Z = [] then NaN
              else round_to_double (sign * int (digits_value R Z)))"

text \<open>
  What the host supplies and the sources do not fix: the line separator \<open>os.EOL\<close>,
  \<open>parseFloat\<close>, the conversion of a number to a string, and \<open>String.fromCodePoint\<close>
  (which can produce code units above 255 and can reject its argument).
\<close>

record host =
  EOL :: string
  parseFloat :: "string \<Rightarrow> number"
  numberToString :: "number \<Rightarrow> string"
  fromCodePoint :: "nat \<Rightarrow> string option"

section \<open>Literals of times and dates (parser.ts)\<close>

text \<open>
  \<open>normalizeTimeLiteral\<close>: a trimmed \<open>dd:dd:dd\<close> with an optional fraction of digits; the
  fraction is padded with zeros and cut to six digits. Anything else is returned trimmed.
\<close>

definition is_hms :: "string \<Rightarrow> bool" where
  "is_hms s = (length s = 8 \<and> is_digit (s ! 0) \<and> is_digit (s ! 1) \<and> s ! 2 = CHR '':'' \<and>
     is_digit (s ! 3) \<and> is_digit (s ! 4) \<and> s ! 5 = CHR '':'' \<and> is_digit (s ! 6) \<and> is_digit (s ! 7))"

definition padEnd6 :: "string \<Rightarrow> string" where
  "padEnd6 s = take 6 (s @ replicate (6 - length s) CHR ''0'')"

definition normalizeTimeLiteral :: "string \<Rightarrow> string" where
  "normalizeTimeLiteral v =
     (let trimmed = trim v; base = take 8 trimmed; rest = drop 8 trimmed
      in if \<not> is_hms base then trimmed
         else if rest = [] then base
         else if hd rest = CHR ''.'' \<and> tl rest \<noteq> [] \<and> list_all is_digit (tl rest)
           then base @ ''.'' @ padEnd6 (tl rest)
         else trimmed)"

text \<open>The index of the first and of the last occurrence of a character.\<close>

fun indexOf :: "string \<Rightarrow> char \<Rightarrow> nat option" where
  "indexOf [] c = None"
| "indexOf (x # xs) c = (if x = c then Some 0 else map_option Suc (indexOf xs c))"

definition lastIndexOf :: "string \<Rightarrow> char \<Rightarrow> nat option" where
  "lastIndexOf s c = map_option (\<lambda>i. length s - 1 - i) (indexOf (rev s) c)"

definition is_tz :: "string \<Rightarrow> bool" where
  "is_tz s = (length s = 6 \<and> (s ! 0 = CHR ''+'' \<or> s ! 0 = CHR ''-'') \<and> is_digit (s ! 1) \<and>
     is_digit (s ! 2) \<and> s ! 3 = CHR '':'' \<and> is_digit (s ! 4) \<and> is_digit (s ! 5))"

definition normalizeDateTimeLiteral :: "string \<Rightarrow> string" where
  "normalizeDateTimeLiteral v =
     (let normalized = trim v;
          normalized = (case indexOf normalized CHR '' '' of
                          None \<Rightarrow> normalized
                        | Some firstSpace \<Rightarrow>
                            take firstSpace normalized @ ''T'' @ drop (firstSpace + 1) normalized);
          (tz, normalized) =
            (if endsWith normalized ''Z'' then (''+00:00'', butlast normalized)
             else if 6 \<le> length normalized \<and> is_tz (drop (length normalized - 6) normalized)
               then (drop (length normalized - 6) normalized,
                     take (length normalized - 6) normalized)
             else ([], normalized));
          normalized = (case lastIndexOf normalized CHR ''.'' of
                          None \<Rightarrow> normalized
                        | Some dotIndex \<Rightarrow>
                            let fraction = drop (dotIndex + 1) normalized
                            in if fraction \<noteq> [] \<and> list_all is_digit fraction
                               then take dotIndex normalized @ ''.'' @ padEnd6 fraction
                               else normalized)
      in normalized @ tz)"

section \<open>Errors\<close>

text \<open>
  Every failure of the parser is a \<open>TycoError\<close> with a message; the constructors below
  name the messages after the error kinds of the specification where it has one. The last
  two are exceptions of the host itself.
\<close>

datatype error =
    AttributesNotSet                \<comment> \<open>"Attributes not set"\<close>
  | InvalidBool                     \<comment> \<open>"Boolean ... not in (true, false)"\<close>
  | UnknownType                     \<comment> \<open>"Unknown type of"\<close>
  | ExpectedArray                   \<comment> \<open>"Array expected for", "Expected array for"\<close>
  | ArrayNotDeclared                \<comment> \<open>"Schema for ... needs to indicate array with []"\<close>
  | TypeMismatch                    \<comment> \<open>"... expected for ...", "Expected ... and instead have"\<close>
  | PositionalAfterKeyword          \<comment> \<open>"Can not use positional values after keyed values"\<close>
  | MissingAttr                     \<comment> \<open>"Invalid attribute ... for ..."\<close>
  | DuplicatePrimaryKey             \<comment> \<open>"... already found for ..."\<close>
  | UnknownReference                \<comment> \<open>"Unable to find reference of"\<close>
  | BadTypeName                     \<comment> \<open>"Bad type name for reference"\<close>
  | DoubleRender                    \<comment> \<open>"Rendered multiple times"\<close>
  | UnresolvedReferenceInTemplate   \<comment> \<open>"Reference ... not resolved for template access"\<close>
  | ParentOverflow                  \<comment> \<open>"Traversing parents hit base instance"\<close>
  | EmptyTemplate                   \<comment> \<open>"Empty template content"\<close>
  | UnknownAttr                     \<comment> \<open>"Cannot access"\<close>
  | UntemplatableType               \<comment> \<open>"Can not templatize objects other than strings or ints"\<close>
  | FileAccess                      \<comment> \<open>"Can only load path if is a regular file"\<close>
  | Malformatted                    \<comment> \<open>"Malformatted config file"\<close>
  | DefaultsClash                   \<comment> \<open>"This should not happen: ... in defaults"\<close>
  | InvalidNumber                   \<comment> \<open>a kind of the specification; no message of the code\<close>
  | JsTypeError                     \<comment> \<open>the host's TypeError\<close>
  | JsRangeError                    \<comment> \<open>the host's RangeError\<close>

section \<open>Primitive values (class TycoValue)\<close>

text \<open>The \<open>rendered\<close> property of a primitive: the sentinel, or a typed value.\<close>

datatype rendered = UNRENDERED | RNull | RStr string | RNum number | RBool bool

text \<open>
  The schema properties that all four kinds of value node carry. \<open>parent\<close> is not a
  field: see the section on templates.
\<close>

record SchemaInfo =
  typeName :: "string js"
  attrName :: "string js"
  isNullable :: "bool option"
  isArray :: "bool option"
  fragment :: "SourceFragment option"

record TycoValue = SchemaInfo +
  content :: string
  isLiteralStr :: bool
  rendered :: rendered

text \<open>
  The \<open>int\<close> branch of \<open>renderBaseContent\<close>: a leading sign is split off, then a base
  prefix, and \<open>parseInt\<close> converts the rest; the sign multiplies the result.
\<close>

definition split_sign :: "string \<Rightarrow> real \<times> string" where
  "split_sign c =
     (if startsWith c ''-'' \<or> startsWith c ''+''
        then (if startsWith c ''-'' then - 1 else 1, substring c 1 (int (length c)))
      else (1, c))"

definition split_base :: "string \<Rightarrow> nat \<times> string" where
  "split_base digits =
     (if startsWith digits ''0x'' \<or> startsWith digits ''0X''
        then (16, substring digits 2 (int (length digits)))
      else if startsWith digits ''0o'' \<or> startsWith digits ''0O''
        then (8, substring digits 2 (int (length digits)))
      else if startsWith digits ''0b'' \<or> startsWith digits ''0B''
        then (2, substring digits 2 (int (length digits)))
      else (10, digits))"

definition render_int :: "string \<Rightarrow> number" where
  "render_int c =
     (let (sign, digits) = split_sign c;
          (base, digits) = split_base digits
      in num_mult (Fin sign) (parseInt digits base))"

text \<open>The \<open>str\<close> branch: the wrapping delimiters go, and after a triple one leading EOL.\<close>

definition render_str :: "host \<Rightarrow> string \<Rightarrow> string" where
  "render_str h c =
     (if startsWith c [CHR 0x27, CHR 0x27, CHR 0x27] \<or> startsWith c [CHR 0x22, CHR 0x22, CHR 0x22]
        then (let c' = substring c 3 (int (length c) - 3)
              in if startsWith c' (EOL h) then substring c' (int (length (EOL h))) (int (length c'))
                 else c')
      else if startsWith c [CHR 0x27] \<or> startsWith c [CHR 0x22]
        then substring c 1 (int (length c) - 1)
      else c)"

text \<open>\<open>TycoValue.renderBaseContent\<close>.\<close>

definition TycoValue_renderBaseContent :: "host \<Rightarrow> TycoValue \<Rightarrow> error + TycoValue" where
  "TycoValue_renderBaseContent h v =
     (if typeName v = Null \<or> attrName v = Null \<or> isNullable v = None \<or> isArray v = None
        then Inl AttributesNotSet
      else if isNullable v = Some True \<and> content v = ''null''
        then Inr (v\<lparr>rendered := RNull\<rparr>)
      else if typeName v = Def ''str''
        then Inr (v\<lparr>isLiteralStr := startsWith (content v) [CHR 0x27],
                    rendered := RStr (render_str h (content v))\<rparr>)
      else if typeName v = Def ''int''
        then Inr (v\<lparr>rendered := RNum (render_int (content v))\<rparr>)
      else if typeName v = Def ''float''
        then Inr (v\<lparr>rendered := RNum (parseFloat h (content v))\<rparr>)
      else if typeName v = Def ''decimal''
        then Inr (v\<lparr>rendered := RNum (parseFloat h (content v))\<rparr>)
      else if typeName v = Def ''bool''
        then (if content v = ''true'' then Inr (v\<lparr>rendered := RBool True\<rparr>)
              else if content v = ''false'' then Inr (v\<lparr>rendered := RBool False\<rparr>)
              else Inl InvalidBool)
      else if typeName v = Def ''date''
        then Inr (v\<lparr>rendered := RStr (content v)\<rparr>)
      else if typeName v = Def ''time''
        then Inr (v\<lparr>rendered := RStr (normalizeTimeLiteral (content v))\<rparr>)
      else if typeName v = Def ''datetime''
        then Inr (v\<lparr>rendered := RStr (normalizeDateTimeLiteral (content v))\<rparr>)
      else Inl UnknownType)"


section \<open>Value nodes (classes TycoValue, TycoArray, TycoInstance, TycoReference)\<close>

text \<open>
  A node owns its children: the elements of an array, the fields of an instance (a \<open>Map\<close>
  from attribute name to node, kept in insertion order) and the arguments of a reference.
  The \<open>rendered\<close> property of a reference is the sentinel or an instance that the struct
  of its type owns; the instance is named by its position in the \<open>instances\<close> of that
  struct, which never changes once the instance is declared.
\<close>

datatype node =
    Value TycoValue
  | Array SchemaInfo "node list"
  | Instance SchemaInfo "(string \<times> node) list"
  | Reference SchemaInfo "node list" "nat option"

text \<open>\<open>Map.get\<close>, \<open>Map.has\<close> and \<open>Map.set\<close> on a map kept as a list of entries.\<close>

definition map_has :: "('k \<times> 'v) list \<Rightarrow> 'k \<Rightarrow> bool" where
  "map_has m k = (map_of m k \<noteq> None)"

fun map_set :: "('k \<times> 'v) list \<Rightarrow> 'k \<Rightarrow> 'v \<Rightarrow> ('k \<times> 'v) list" where
  "map_set [] k v = [(k, v)]"
| "map_set ((k', v') # m) k v = (if k' = k then (k, v) # m else (k', v') # map_set m k v)"

text \<open>
  The argument of \<open>applySchemaInfo\<close>: an object with some of the four keys; a key that is
  present may hold \<open>undefined\<close>.
\<close>

record kwargs =
  kw_typeName :: "string js option"
  kw_attrName :: "string js option"
  kw_isNullable :: "bool option"
  kw_isArray :: "bool option"

definition assign :: "kwargs \<Rightarrow> 'a SchemaInfo_scheme \<Rightarrow> 'a SchemaInfo_scheme" where
  "assign kw i =
     i\<lparr>typeName := (case kw_typeName kw of None \<Rightarrow> typeName i | Some t \<Rightarrow> t),
       attrName := (case kw_attrName kw of None \<Rightarrow> attrName i | Some a \<Rightarrow> a),
       isNullable := (case kw_isNullable kw of None \<Rightarrow> isNullable i | Some b \<Rightarrow> Some b),
       isArray := (case kw_isArray kw of None \<Rightarrow> isArray i | Some b \<Rightarrow> Some b)\<rparr>"

definition BASE_TYPES :: "string list" where
  "BASE_TYPES = [''str'', ''int'', ''bool'', ''float'', ''decimal'', ''date'', ''time'', ''datetime'']"

text \<open>What an array hands to each of its elements.\<close>

definition itemKwargs :: "SchemaInfo \<Rightarrow> kwargs" where
  "itemKwargs i =
     \<lparr>kw_typeName = (if typeName i \<noteq> Null then Some (typeName i) else None),
      kw_attrName = (if attrName i \<noteq> Null then Some (attrName i) else None),
      kw_isNullable = Some False, kw_isArray = Some False\<rparr>"

text \<open>
  \<open>applySchemaInfo\<close> of the four classes. An instance or a reference refuses a type name
  other than its own; a primitive refuses an array schema (unless it is a nullable
  \<open>null\<close>) and a type that is not a base type; an array passes the schema on to its
  elements and refuses a schema that is not an array.
\<close>

fun applySchemaInfo :: "kwargs \<Rightarrow> node \<Rightarrow> error + node"
  and applySchemaInfo_all :: "kwargs \<Rightarrow> node list \<Rightarrow> error + node list" where
  "applySchemaInfo kw (Value v) =
     (let v' = assign kw v
      in if isArray v' = Some True \<and> \<not> (isNullable v' = Some True \<and> content v' = ''null'')
           then Inl ExpectedArray
         else if typeName v' \<noteq> Null \<and> \<not> (\<exists>t \<in> set BASE_TYPES. typeName v' = Def t)
           then Inl TypeMismatch
         else Inr (Value v'))"
| "applySchemaInfo kw (Instance i fs) =
     (if (case kw_typeName kw of None \<Rightarrow> False | Some t \<Rightarrow> typeName i \<noteq> t) then Inl TypeMismatch
      else let i' = assign kw i
           in if isArray i' = Some True then Inl ExpectedArray else Inr (Instance i' fs))"
| "applySchemaInfo kw (Reference i args r) =
     (if (case kw_typeName kw of None \<Rightarrow> False | Some t \<Rightarrow> typeName i \<noteq> t) then Inl TypeMismatch
      else let i' = assign kw i
           in if isArray i' = Some True then Inl ExpectedArray else Inr (Reference i' args r))"
| "applySchemaInfo kw (Array i xs) =
     (let i' = assign kw i
      in case applySchemaInfo_all (itemKwargs i') xs of
           Inl e \<Rightarrow> Inl e
         | Inr xs' \<Rightarrow> if isArray i' = Some False then Inl ArrayNotDeclared else Inr (Array i' xs'))"
| "applySchemaInfo_all kw [] = Inr []"
| "applySchemaInfo_all kw (x # xs) =
     (case applySchemaInfo kw x of
        Inl e \<Rightarrow> Inl e
      | Inr x' \<Rightarrow> (case applySchemaInfo_all kw xs of Inl e \<Rightarrow> Inl e | Inr xs' \<Rightarrow> Inr (x' # xs')))"

text \<open>
  \<open>renderBaseContent\<close>: a primitive renders itself, an array its elements, an instance its
  fields in order; a reference does nothing.
\<close>

fun renderBaseContent :: "host \<Rightarrow> node \<Rightarrow> error + node"
  and renderBaseContent_all :: "host \<Rightarrow> node list \<Rightarrow> error + node list"
  and renderBaseContent_fields :: "host \<Rightarrow> (string \<times> node) list \<Rightarrow> error + (string \<times> node) list" where
  "renderBaseContent h (Value v) =
     (case TycoValue_renderBaseContent h v of Inl e \<Rightarrow> Inl e | Inr v' \<Rightarrow> Inr (Value v'))"
| "renderBaseContent h (Array i xs) =
     (case renderBaseContent_all h xs of Inl e \<Rightarrow> Inl e | Inr xs' \<Rightarrow> Inr (Array i xs'))"
| "renderBaseContent h (Instance i fs) =
     (case renderBaseContent_fields h fs of Inl e \<Rightarrow> Inl e | Inr fs' \<Rightarrow> Inr (Instance i fs'))"
| "renderBaseContent h (Reference i args r) = Inr (Reference i args r)"
| "renderBaseContent_all h [] = Inr []"
| "renderBaseContent_all h (x # xs) =
     (case renderBaseContent h x of
        Inl e \<Rightarrow> Inl e
      | Inr x' \<Rightarrow> (case renderBaseContent_all h xs of Inl e \<Rightarrow> Inl e | Inr xs' \<Rightarrow> Inr (x' # xs')))"
| "renderBaseContent_fields h [] = Inr []"
| "renderBaseContent_fields h ((a, x) # fs) =
     (case renderBaseContent h x of
        Inl e \<Rightarrow> Inl e
      | Inr x' \<Rightarrow> (case renderBaseContent_fields h fs of
                     Inl e \<Rightarrow> Inl e | Inr fs' \<Rightarrow> Inr ((a, x') # fs')))"

text \<open>\<open>xs.join(sep)\<close> on strings.\<close>

fun join :: "string \<Rightarrow> string list \<Rightarrow> string" where
  "join sep [] = []"
| "join sep [x] = x"
| "join sep (x # y # ys) = x @ sep @ join sep (y # ys)"

text \<open>Collecting results in order, stopping at the first error.\<close>

fun sequence :: "('e + 'a) list \<Rightarrow> 'e + 'a list" where
  "sequence [] = Inr []"
| "sequence (x # xs) =
     (case x of Inl e \<Rightarrow> Inl e
      | Inr a \<Rightarrow> (case sequence xs of Inl e \<Rightarrow> Inl e | Inr as \<Rightarrow> Inr (a # as)))"

text \<open>
  The string that \<open>Array.prototype.join\<close> makes of the \<open>rendered\<close> property of a node:
  empty for \<open>null\<close>, a \<open>TypeError\<close> for the sentinel (a Symbol), the elements joined by a
  comma for an array, and \<open>[object Object]\<close> for the object of an instance.
\<close>

definition bool_string :: "bool \<Rightarrow> string" where
  "bool_string b = (if b then ''true'' else ''false'')"

fun joined_string :: "host \<Rightarrow> node \<Rightarrow> error + string" where
  "joined_string h (Value v) =
     (case rendered v of
        UNRENDERED \<Rightarrow> Inl JsTypeError
      | RNull \<Rightarrow> Inr []
      | RStr s \<Rightarrow> Inr s
      | RNum n \<Rightarrow> Inr (numberToString h n)
      | RBool b \<Rightarrow> Inr (bool_string b))"
| "joined_string h (Array i xs) =
     (case sequence (map (joined_string h) xs) of Inl e \<Rightarrow> Inl e | Inr ss \<Rightarrow> Inr (join '','' ss))"
| "joined_string h (Instance i fs) = Inr ''[object Object]''"
| "joined_string h (Reference i args r) =
     (case r of None \<Rightarrow> Inl JsTypeError | Some k \<Rightarrow> Inr ''[object Object]'')"

section \<open>Structs (class TycoStruct)\<close>

text \<open>
  \<open>structName\<close> is the \<open>typeName\<close> of the struct. \<open>mappedInstances\<close> maps a primary-key
  tuple, joined into one string, to an instance, given by its position in \<open>instances\<close>.
\<close>

record TycoStruct =
  structName :: string
  attrTypes :: "(string \<times> string) list"
  primaryKeys :: "string list"
  nullableKeys :: "string list"
  arrayKeys :: "string list"
  instances :: "node list"
  mappedInstances :: "(string \<times> nat) list"

text \<open>\<open>inst.instKwargs.get(k)\<close>; reading \<open>instKwargs\<close> off a node that has none is not
  something the parser does, and would be a \<open>TypeError\<close>.\<close>

fun instKwargs :: "node \<Rightarrow> (string \<times> node) list option" where
  "instKwargs (Instance i fs) = Some fs"
| "instKwargs _ = None"

text \<open>
  The key of an instance: \<open>primaryKeys.map(k => inst.instKwargs.get(k).rendered).join('\0')\<close>.
  A missing field would be \<open>undefined\<close>, whose \<open>rendered\<close> cannot be read.
\<close>

definition key_of_fields :: "host \<Rightarrow> ('k \<times> node) list \<Rightarrow> 'k list \<Rightarrow> error + string" where
  "key_of_fields h fs ks =
     (case sequence (map (\<lambda>k. case map_of fs k of
                                  None \<Rightarrow> Inl JsTypeError
                                | Some x \<Rightarrow> joined_string h x) ks) of
        Inl e \<Rightarrow> Inl e
      | Inr ss \<Rightarrow> Inr (join [CHR 0x00] ss))"




text \<open>The \<open>attrName\<close> property of a node.\<close>

fun node_attrName :: "node \<Rightarrow> string js" where
  "node_attrName (Value v) = attrName v"
| "node_attrName (Array i xs) = attrName i"
| "node_attrName (Instance i fs) = attrName i"
| "node_attrName (Reference i args r) = attrName i"

text \<open>\<open>xs[i]\<close> and \<open>m.get(k)\<close> where the answer may be \<open>undefined\<close>.\<close>

definition at_index :: "'a list \<Rightarrow> nat \<Rightarrow> 'a js" where
  "at_index xs i = (if i < length xs then Def (xs ! i) else Undefined)"

definition get_attr :: "(string \<times> 'a) list \<Rightarrow> string js \<Rightarrow> 'a js" where
  "get_attr m k =
     (case k of Def a \<Rightarrow> (case map_of m a of None \<Rightarrow> Undefined | Some t \<Rightarrow> Def t)
      | _ \<Rightarrow> Undefined)"

definition has_attr :: "string list \<Rightarrow> string js \<Rightarrow> bool" where
  "has_attr ks k = (case k of Def a \<Rightarrow> a \<in> set ks | _ \<Rightarrow> False)"

text \<open>
  The loop of \<open>loadReference\<close> over the arguments: each takes the name of the primary key
  at its position unless it is keyed, gets the schema of that attribute, is base-rendered
  and entered under the name.
\<close>

fun reference_args :: "host \<Rightarrow> TycoStruct \<Rightarrow> nat \<Rightarrow> bool \<Rightarrow> node list
    \<Rightarrow> (string js \<times> node) list \<Rightarrow> error + node list \<times> (string js \<times> node) list" where
  "reference_args h s i kwargsOnly [] m = Inr ([], m)"
| "reference_args h s i kwargsOnly (attr # rest) m =
     (if falsy (node_attrName attr) \<and> kwargsOnly then Inl PositionalAfterKeyword
      else
        let name = (if falsy (node_attrName attr) then at_index (primaryKeys s) i
                    else node_attrName attr);
            kwargsOnly' = (kwargsOnly \<or> \<not> falsy (node_attrName attr));
            kw = \<lparr>kw_typeName = Some (get_attr (attrTypes s) name), kw_attrName = Some name,
                  kw_isNullable = Some (has_attr (nullableKeys s) name),
                  kw_isArray = Some (has_attr (arrayKeys s) name)\<rparr>
        in case applySchemaInfo kw attr of
             Inl e \<Rightarrow> Inl e
           | Inr attr1 \<Rightarrow>
               (case renderBaseContent h attr1 of
                  Inl e \<Rightarrow> Inl e
                | Inr attr2 \<Rightarrow>
                    (case reference_args h s (Suc i) kwargsOnly' rest (map_set m name attr2) of
                       Inl e \<Rightarrow> Inl e
                     | Inr (rest', m') \<Rightarrow> Inr (attr2 # rest', m'))))"

text \<open>The arguments after the loop, and the key that they form.\<close>

definition reference_key :: "host \<Rightarrow> TycoStruct \<Rightarrow> node list \<Rightarrow> error + node list \<times> string" where
  "reference_key h s instArgs =
     (case reference_args h s 0 False instArgs [] of
        Inl e \<Rightarrow> Inl e
      | Inr (args', m) \<Rightarrow>
          (case key_of_fields h m (map Def (primaryKeys s)) of
             Inl e \<Rightarrow> Inl e
           | Inr key \<Rightarrow> Inr (args', key)))"

text \<open>
  \<open>loadReference\<close>: the key is looked up in \<open>mappedInstances\<close>; the result is the
  arguments as the loop left them and the instance found.
\<close>

definition loadReference :: "host \<Rightarrow> TycoStruct \<Rightarrow> node list \<Rightarrow> error + node list \<times> nat" where
  "loadReference h s instArgs =
     (case reference_key h s instArgs of
        Inl e \<Rightarrow> Inl e
      | Inr (args', key) \<Rightarrow>
          (case map_of (mappedInstances s) key of
             None \<Rightarrow> Inl UnknownReference
           | Some n \<Rightarrow> Inr (args', n)))"

section \<open>The context (class TycoContext)\<close>

text \<open>
  A lexer (class TycoLexer) holds the queue of lines still to be read, the path of its
  file, and the defaults of the structs it has declared.
\<close>

record TycoLexer =
  lines :: "SourceFragment list"
  path :: "string option"
  defaults :: "(string \<times> (string \<times> node) list) list"

text \<open>
  \<open>pathCache\<close>, \<open>structs\<close> and \<open>globals\<close> are \<open>Map\<close>s in insertion order. \<open>pathCache\<close>
  maps the path of a file to the lexer that has read it.
\<close>

record TycoContext =
  pathCache :: "(string \<times> TycoLexer) list"
  structs :: "(string \<times> TycoStruct) list"
  globals :: "(string \<times> node) list"

text \<open>
  \<open>renderReferences\<close>: a reference that is already rendered, or whose type is no struct
  of the context, fails; otherwise the struct of its type resolves it.
\<close>

fun renderReferences :: "host \<Rightarrow> TycoContext \<Rightarrow> node \<Rightarrow> error + node"
  and renderReferences_all :: "host \<Rightarrow> TycoContext \<Rightarrow> node list \<Rightarrow> error + node list"
  and renderReferences_fields :: "host \<Rightarrow> TycoContext \<Rightarrow> (string \<times> node) list
      \<Rightarrow> error + (string \<times> node) list" where
  "renderReferences h ctx (Value v) = Inr (Value v)"
| "renderReferences h ctx (Array i xs) =
     (case renderReferences_all h ctx xs of Inl e \<Rightarrow> Inl e | Inr xs' \<Rightarrow> Inr (Array i xs'))"
| "renderReferences h ctx (Instance i fs) =
     (case renderReferences_fields h ctx fs of Inl e \<Rightarrow> Inl e | Inr fs' \<Rightarrow> Inr (Instance i fs'))"
| "renderReferences h ctx (Reference i args r) =
     (if r \<noteq> None then Inl DoubleRender
      else case get_attr (structs ctx) (typeName i) of
             Def s \<Rightarrow> (case loadReference h s args of
                         Inl e \<Rightarrow> Inl e
                       | Inr (args', n) \<Rightarrow> Inr (Reference i args' (Some n)))
           | _ \<Rightarrow> Inl BadTypeName)"
| "renderReferences_all h ctx [] = Inr []"
| "renderReferences_all h ctx (x # xs) =
     (case renderReferences h ctx x of
        Inl e \<Rightarrow> Inl e
      | Inr x' \<Rightarrow> (case renderReferences_all h ctx xs of
                     Inl e \<Rightarrow> Inl e | Inr xs' \<Rightarrow> Inr (x' # xs')))"
| "renderReferences_fields h ctx [] = Inr []"
| "renderReferences_fields h ctx ((a, x) # fs) =
     (case renderReferences h ctx x of
        Inl e \<Rightarrow> Inl e
      | Inr x' \<Rightarrow> (case renderReferences_fields h ctx fs of
                     Inl e \<Rightarrow> Inl e | Inr fs' \<Rightarrow> Inr ((a, x') # fs')))"

section \<open>Templates (TycoValue.renderTemplates)\<close>

text \<open>
  \<open>setParent\<close> gives every node reached from the context its parent: the \<open>globals\<close> map
  for a global, \<open>null\<close> for an instance of a struct, the enclosing instance for a field,
  and for an element of an array the parent of the array. The parent of a node is thus
  fixed by the place of the node, and \<open>renderTemplates\<close> takes it as an argument: the
  \<open>globals\<close> map, \<open>null\<close>, or an instance together with the parent of that instance.
\<close>

datatype parent = PNull | PGlobals | PInstance node parent

text \<open>
  What the variable \<open>obj\<close> of the template closure can hold: a parent (among them \<open>null\<close>
  and the \<open>globals\<close> map), \<open>undefined\<close>, or a node found by a lookup.
\<close>

datatype tobj = OParent parent | OUndefined | ONode node

text \<open>
  \<open>obj.parent\<close> during the parent traversal, where \<open>obj\<close> is a parent or \<open>undefined\<close>
  (\<open>None\<close>): a \<open>Map\<close> has no such property; \<open>null\<close> and \<open>undefined\<close> have none at all.
\<close>

fun parent_of :: "parent option \<Rightarrow> error + parent option" where
  "parent_of (Some PNull) = Inl JsTypeError"
| "parent_of (Some PGlobals) = Inr None"
| "parent_of (Some (PInstance inst p)) = Inr (Some p)"
| "parent_of None = Inl JsTypeError"

fun parent_obj :: "parent option \<Rightarrow> tobj" where
  "parent_obj (Some p) = OParent p"
| "parent_obj None = OUndefined"

text \<open>The instance that a rendered reference points to.\<close>

definition deref :: "TycoContext \<Rightarrow> string js \<Rightarrow> nat \<Rightarrow> node option" where
  "deref ctx t n =
     (case get_attr (structs ctx) t of
        Def s \<Rightarrow> (if n < length (instances s) then Some (instances s ! n) else None)
      | _ \<Rightarrow> None)"

text \<open>
  \<open>tryGetAttr\<close>: a lookup in the \<open>globals\<close> map, in the fields of the instance behind a
  reference (which must be rendered), or in the fields of an instance; \<open>undefined\<close> for
  anything else.
\<close>

fun tryGetAttr :: "TycoContext \<Rightarrow> tobj \<Rightarrow> string \<Rightarrow> error + node option" where
  "tryGetAttr ctx (OParent PGlobals) attr = Inr (map_of (globals ctx) attr)"
| "tryGetAttr ctx (ONode (Reference i args r)) attr =
     (case r of
        None \<Rightarrow> Inl UnresolvedReferenceInTemplate
      | Some n \<Rightarrow> (case deref ctx (typeName i) n of
                    None \<Rightarrow> Inl JsTypeError
                  | Some inst \<Rightarrow> (case instKwargs inst of
                                   None \<Rightarrow> Inl JsTypeError
                                 | Some fs \<Rightarrow> Inr (map_of fs attr))))"
| "tryGetAttr ctx (ONode (Instance i fs)) attr = Inr (map_of fs attr)"
| "tryGetAttr ctx (OParent (PInstance inst p)) attr =
     (case instKwargs inst of None \<Rightarrow> Inr None | Some fs \<Rightarrow> Inr (map_of fs attr))"
| "tryGetAttr ctx _ attr = Inr None"

text \<open>
  The parent traversal: after one leading dot is removed, every further leading dot is
  one step to the parent; reaching \<open>null\<close> is an error.
\<close>

fun hops :: "parent option \<Rightarrow> string \<Rightarrow> error + parent option \<times> string" where
  "hops obj [] = Inr (obj, [])"
| "hops obj (c # cs) =
     (if c = CHR ''.'' then
        (case parent_of obj of
           Inl e \<Rightarrow> Inl e
         | Inr obj' \<Rightarrow> if obj' = Some PNull then Inl ParentOverflow else hops obj' cs)
      else Inr (obj, c # cs))"

text \<open>\<open>s.split('.')\<close>.\<close>

fun split_dot :: "string \<Rightarrow> string list" where
  "split_dot [] = [[]]"
| "split_dot (c # cs) =
     (if c = CHR ''.'' then [] # split_dot cs
      else (case split_dot cs of [] \<Rightarrow> [[c]] | p # ps \<Rightarrow> (c # p) # ps))"

text \<open>
  The loop over the queue of segments. A segment that is found is consumed; one that is
  not found is merged with the next one; only when nothing is left to merge is the
  \<open>global\<close> keyword looked at.
\<close>

function resolve :: "TycoContext \<Rightarrow> string \<Rightarrow> tobj \<Rightarrow> string list \<Rightarrow> error + tobj" where
  "resolve ctx firstSegment obj [] = Inr obj"
| "resolve ctx firstSegment obj (attr # rest) =
     (case tryGetAttr ctx obj attr of
        Inl e \<Rightarrow> Inl e
      | Inr (Some v) \<Rightarrow> resolve ctx firstSegment (ONode v) rest
      | Inr None \<Rightarrow>
          (case rest of
             second # rest' \<Rightarrow> resolve ctx firstSegment obj ((attr @ ''.'' @ second) # rest')
           | [] \<Rightarrow>
               if attr = ''global'' \<and> firstSegment = ''global''
               then resolve ctx firstSegment (OParent PGlobals) []
               else Inl UnknownAttr))"
  by pat_completeness auto
termination
  by (relation "measure (\<lambda>(ctx, f, obj, q). length q)") auto

declare resolve.simps [simp del]

text \<open>\<open>obj.typeName\<close> and \<open>String(obj.rendered)\<close> of what the loop ends on.\<close>

fun node_typeName :: "node \<Rightarrow> string js" where
  "node_typeName (Value v) = typeName v"
| "node_typeName (Array i xs) = typeName i"
| "node_typeName (Instance i fs) = typeName i"
| "node_typeName (Reference i args r) = typeName i"

fun obj_typeName :: "tobj \<Rightarrow> error + string js" where
  "obj_typeName (OParent PNull) = Inl JsTypeError"
| "obj_typeName (OParent PGlobals) = Inr Undefined"
| "obj_typeName (OParent (PInstance inst p)) = Inr (node_typeName inst)"
| "obj_typeName OUndefined = Inl JsTypeError"
| "obj_typeName (ONode n) = Inr (node_typeName n)"

fun node_rendered_string :: "host \<Rightarrow> node \<Rightarrow> error + string" where
  "node_rendered_string h (Value v) =
     (case rendered v of
        UNRENDERED \<Rightarrow> Inr ''Symbol(unrendered)''
      | RNull \<Rightarrow> Inr ''null''
      | RStr s \<Rightarrow> Inr s
      | RNum n \<Rightarrow> Inr (numberToString h n)
      | RBool b \<Rightarrow> Inr (bool_string b))"
| "node_rendered_string h (Array i xs) = joined_string h (Array i xs)"
| "node_rendered_string h (Instance i fs) = Inr ''[object Object]''"
| "node_rendered_string h (Reference i args r) =
     (case r of None \<Rightarrow> Inr ''Symbol(unrendered)'' | Some n \<Rightarrow> Inr ''[object Object]'')"

fun obj_rendered_string :: "host \<Rightarrow> tobj \<Rightarrow> error + string" where
  "obj_rendered_string h (OParent PNull) = Inl JsTypeError"
| "obj_rendered_string h (OParent PGlobals) = Inr ''undefined''"
| "obj_rendered_string h (OParent (PInstance inst p)) = node_rendered_string h inst"
| "obj_rendered_string h OUndefined = Inl JsTypeError"
| "obj_rendered_string h (ONode n) = node_rendered_string h n"

text \<open>
  The closure \<open>templateRender\<close>, applied to the path between the braces: parent
  traversal, the loop over the segments, the check that the result is a \<open>str\<close> or an
  \<open>int\<close>, and its string.
\<close>

definition templateRender :: "host \<Rightarrow> TycoContext \<Rightarrow> parent \<Rightarrow> string \<Rightarrow> error + string" where
  "templateRender h ctx par templateVar =
     (case (if startsWith templateVar ''..'' then hops (Some par) (drop 1 templateVar)
            else Inr (Some par, templateVar)) of
        Inl e \<Rightarrow> Inl e
      | Inr (obj, varPath) \<Rightarrow>
          let parts = (if varPath = [] then [] else split_dot varPath)
          in if parts = [] then Inl EmptyTemplate
             else case resolve ctx (hd parts) (parent_obj obj) parts of
                    Inl e \<Rightarrow> Inl e
                  | Inr obj' \<Rightarrow>
                      (case obj_typeName obj' of
                         Inl e \<Rightarrow> Inl e
                       | Inr t \<Rightarrow>
                           if \<not> falsy t \<and> t \<noteq> Def ''str'' \<and> t \<noteq> Def ''int''
                           then Inl UntemplatableType
                           else obj_rendered_string h obj'))"

text \<open>
  \<open>s.replace(/\{([\w\.]+)\}/g, f)\<close>: from left to right, every brace that is followed by
  a non-empty run of word characters and dots and then a closing brace is replaced by the
  result of \<open>f\<close> on the run; the first failure of \<open>f\<close> ends the replacement.
\<close>

definition is_word :: "char \<Rightarrow> bool" where
  "is_word c =
     (let n = (of_char c :: nat)
      in (48 \<le> n \<and> n \<le> 57) \<or> (65 \<le> n \<and> n \<le> 90) \<or> (97 \<le> n \<and> n \<le> 122) \<or> n = 95)"

definition is_path_char :: "char \<Rightarrow> bool" where
  "is_path_char c = (is_word c \<or> c = CHR ''.'')"

function replace_templates :: "(string \<Rightarrow> error + string) \<Rightarrow> string \<Rightarrow> error + string" where
  "replace_templates f [] = Inr []"
| "replace_templates f (c # cs) =
     (let w = takeWhile is_path_char cs; rest = dropWhile is_path_char cs
      in if c = CHR ''{'' \<and> w \<noteq> [] \<and> rest \<noteq> [] \<and> hd rest = CHR ''}''
         then (case f w of
                 Inl e \<Rightarrow> Inl e
               | Inr r \<Rightarrow> (case replace_templates f (tl rest) of
                             Inl e \<Rightarrow> Inl e | Inr t \<Rightarrow> Inr (r @ t)))
         else (case replace_templates f cs of Inl e \<Rightarrow> Inl e | Inr t \<Rightarrow> Inr (c # t)))"
  by pat_completeness auto
termination
proof (relation "measure (\<lambda>(f, s). length s)")
  show "wf (measure (\<lambda>(f, s). length s))" by simp
next
  fix f :: "string \<Rightarrow> error + string" and c :: char and cs w rest :: string and r :: string
  assume "rest = dropWhile is_path_char cs"
  then have "length (tl rest) \<le> length cs"
    using length_dropWhile_le[of is_path_char cs] by simp
  then show "((f, tl rest), (f, c # cs)) \<in> measure (\<lambda>(f, s). length s)" by simp
next
  fix f :: "string \<Rightarrow> error + string" and c :: char and cs :: string
  show "((f, cs), (f, c # cs)) \<in> measure (\<lambda>(f, s). length s)" by simp
qed

declare replace_templates.simps [simp del]

text \<open>
  \<open>subEscapeSequences\<close>, three passes. First the two-character escapes; then \<open>\uXXXX\<close>
  and \<open>\UXXXXXXXX\<close> through \<open>String.fromCodePoint\<close>; then a backslash followed by white
  space that contains a line feed is removed together with that white space.
\<close>

definition BASIC_STR_ESCAPE :: "(char \<times> char) list" where
  "BASIC_STR_ESCAPE =
     [(CHR 0x5C, CHR 0x5C), (CHR 0x22, CHR 0x22), (CHR ''b'', CHR 0x08), (CHR ''t'', CHR 0x09),
      (CHR ''n'', CHR 0x0A), (CHR ''f'', CHR 0x0C), (CHR ''r'', CHR 0x0D)]"

fun basic_escapes :: "string \<Rightarrow> string" where
  "basic_escapes (b # c # cs) =
     (if b = CHR 0x5C then
        (case map_of BASIC_STR_ESCAPE c of
           Some r \<Rightarrow> r # basic_escapes cs
         | None \<Rightarrow> b # basic_escapes (c # cs))
      else b # basic_escapes (c # cs))"
| "basic_escapes cs = cs"

definition is_hex :: "char \<Rightarrow> bool" where
  "is_hex c = is_radix_digit 16 c"

function unicode_escapes :: "host \<Rightarrow> string \<Rightarrow> error + string" where
  "unicode_escapes h [] = Inr []"
| "unicode_escapes h (c # cs) =
     (let n = (if c = CHR 0x5C \<and> cs \<noteq> [] \<and> hd cs = CHR ''u'' \<and> 4 \<le> length (tl cs) \<and>
                  list_all is_hex (take 4 (tl cs)) then 4
               else if c = CHR 0x5C \<and> cs \<noteq> [] \<and> hd cs = CHR ''U'' \<and> 8 \<le> length (tl cs) \<and>
                  list_all is_hex (take 8 (tl cs)) then 8
               else 0 :: nat)
      in if n = 0
         then (case unicode_escapes h cs of Inl e \<Rightarrow> Inl e | Inr t \<Rightarrow> Inr (c # t))
         else (case fromCodePoint h (digits_value 16 (take n (tl cs))) of
                 None \<Rightarrow> Inl JsRangeError
               | Some r \<Rightarrow> (case unicode_escapes h (drop n (tl cs)) of
                             Inl e \<Rightarrow> Inl e | Inr t \<Rightarrow> Inr (r @ t))))"
  by pat_completeness auto
termination
  by (relation "measure (\<lambda>(h, s). length s)") auto

declare unicode_escapes.simps [simp del]

function elide_continuations :: "string \<Rightarrow> string" where
  "elide_continuations [] = []"
| "elide_continuations (c # cs) =
     (if c = CHR 0x5C \<and> CHR 0x0A \<in> set (takeWhile is_ws cs)
      then elide_continuations (dropWhile is_ws cs)
      else c # elide_continuations cs)"
  by pat_completeness auto
termination
  by (relation "measure length") (auto simp: length_dropWhile_le less_Suc_eq_le)

declare elide_continuations.simps [simp del]

definition subEscapeSequences :: "host \<Rightarrow> string \<Rightarrow> error + string" where
  "subEscapeSequences h s =
     (case unicode_escapes h (basic_escapes s) of
        Inl e \<Rightarrow> Inl e
      | Inr escaped \<Rightarrow> Inr (elide_continuations escaped))"

text \<open>
  \<open>TycoValue.renderTemplates\<close>: nothing for a primitive that is not a \<open>str\<close> or is a
  literal string, nothing for a nullable \<open>null\<close>; otherwise the templates of \<open>rendered\<close> are
  replaced and the escapes applied. \<open>rendered\<close> has to be a string for that.
\<close>

definition TycoValue_renderTemplates ::
    "host \<Rightarrow> TycoContext \<Rightarrow> parent \<Rightarrow> TycoValue \<Rightarrow> error + TycoValue" where
  "TycoValue_renderTemplates h ctx par v =
     (if typeName v \<noteq> Def ''str'' \<or> isLiteralStr v then Inr v
      else if isNullable v = Some True \<and> rendered v = RNull then Inr v
      else case rendered v of
             RStr s \<Rightarrow>
               (case replace_templates (templateRender h ctx par) s of
                  Inl e \<Rightarrow> Inl e
                | Inr r \<Rightarrow> (case subEscapeSequences h r of
                              Inl e \<Rightarrow> Inl e
                            | Inr r' \<Rightarrow> Inr (v\<lparr>rendered := RStr r'\<rparr>)))
           | _ \<Rightarrow> Inl JsTypeError)"

section \<open>Instances of a struct (TycoStruct.createInstance)\<close>









section \<open>Rendering a context (TycoContext.renderContent)\<close>






text \<open>
  A template reads the \<open>rendered\<close> of other nodes, some already through their templates
  and some not; so the last phase works on the context one primitive at a time. A
  primitive is found by the root it hangs from (a global, or an instance of a struct)
  and the path from there: the name of a field of an instance, the position in an array.
  References are not entered.
\<close>

datatype step = Field string | Elem nat


fun value_paths :: "node \<Rightarrow> step list list"
  and value_paths_all :: "nat \<Rightarrow> node list \<Rightarrow> step list list"
  and value_paths_fields :: "(string \<times> node) list \<Rightarrow> step list list" where
  "value_paths (Value v) = [[]]"
| "value_paths (Array i xs) = value_paths_all 0 xs"
| "value_paths (Instance i fs) = value_paths_fields fs"
| "value_paths (Reference i args r) = []"
| "value_paths_all k [] = []"
| "value_paths_all k (x # xs) = map ((#) (Elem k)) (value_paths x) @ value_paths_all (Suc k) xs"
| "value_paths_fields [] = []"
| "value_paths_fields ((a, x) # fs) = map ((#) (Field a)) (value_paths x) @ value_paths_fields fs"













section \<open>Serialization (TycoContext.toObject)\<close>

text \<open>
  The plain tree. \<open>JSymbol\<close> is the sentinel of a primitive that was never rendered.
  An object is its own properties in insertion order, together with its prototype when
  an assignment has replaced it: \<open>None\<close> is the prototype that an object literal \<open>{}\<close>
  starts with, \<open>Object.prototype\<close>, and \<open>Some p\<close> the value \<open>p\<close> (an array, an object or
  \<open>null\<close>) that has taken its place.
\<close>

datatype json =
    JSymbol | JNull | JStr string | JNum number | JBool bool
  | JArr "json list" | JObj "(string \<times> json) list" "json option"

fun rendered_json :: "rendered \<Rightarrow> json" where
  "rendered_json UNRENDERED = JSymbol"
| "rendered_json RNull = JNull"
| "rendered_json (RStr s) = JStr s"
| "rendered_json (RNum n) = JNum n"
| "rendered_json (RBool b) = JBool b"


text \<open>
  The assignment \<open>obj[k] = v\<close> on an object that began as \<open>{}\<close>. For every name but
  \<open>__proto__\<close> it creates the own property \<open>k\<close>, or replaces its value in place. The
  name \<open>__proto__\<close> is an accessor of \<open>Object.prototype\<close>: as long as the object has no
  own property of that name and still reaches \<open>Object.prototype\<close> through its prototype
  chain (which ends there for an array and for every object whose chain holds no
  \<open>null\<close>), the assignment calls the setter, which replaces the prototype of the object
  when \<open>v\<close> is an object, an array or \<open>null\<close> and does nothing otherwise; no own
  property is created. The values assigned here are fresh trees, so the setter never
  meets a cycle.
\<close>

fun inherits_proto_accessor :: "json \<Rightarrow> bool" where
  "inherits_proto_accessor (JObj props proto) =
     (\<not> map_has props ''__proto__'' \<and>
      (case proto of None \<Rightarrow> True | Some p \<Rightarrow> inherits_proto_accessor p))"
| "inherits_proto_accessor (JArr xs) = True"
| "inherits_proto_accessor _ = False"

fun is_object_or_null :: "json \<Rightarrow> bool" where
  "is_object_or_null (JArr xs) = True"
| "is_object_or_null (JObj props proto) = True"
| "is_object_or_null JNull = True"
| "is_object_or_null _ = False"

fun assign_property :: "json \<Rightarrow> string \<Rightarrow> json \<Rightarrow> json" where
  "assign_property (JObj props proto) k v =
     (if k = ''__proto__'' \<and> inherits_proto_accessor (JObj props proto)
      then (if is_object_or_null v then JObj props (Some v) else JObj props proto)
      else JObj (map_set props k v) proto)"
| "assign_property j k v = j"

definition object_of :: "(string \<times> json) list \<Rightarrow> json" where
  "object_of entries = foldl (\<lambda>obj (k, v). assign_property obj k v) (JObj [] None) entries"

text \<open>
  A step that may fail or, below, run out of fuel: \<open>None\<close> stands for a computation that
  does not return. \<open>cons_result\<close> runs a step and then the rest.
\<close>

type_synonym 'a result = "(error + 'a) option"

fun cons_result :: "'a result \<Rightarrow> 'a list result \<Rightarrow> 'a list result" where
  "cons_result None r = None"
| "cons_result (Some (Inl e)) r = Some (Inl e)"
| "cons_result (Some (Inr x)) None = None"
| "cons_result (Some (Inr x)) (Some (Inl e)) = Some (Inl e)"
| "cons_result (Some (Inr x)) (Some (Inr xs)) = Some (Inr (x # xs))"

fun map_result :: "('a \<Rightarrow> 'b) \<Rightarrow> 'a result \<Rightarrow> 'b result" where
  "map_result f None = None"
| "map_result f (Some (Inl e)) = Some (Inl e)"
| "map_result f (Some (Inr x)) = Some (Inr (f x))"

text \<open>
  \<open>toJSON\<close>: the \<open>rendered\<close> of a primitive, the list of an array, the object of an
  instance, and for a reference the \<open>toJSON\<close> of the instance it points to. References
  can point in a circle, and then \<open>toJSON\<close> does not return; each step through a
  reference uses one unit of fuel.
\<close>

fun toJSON :: "nat \<Rightarrow> TycoContext \<Rightarrow> node \<Rightarrow> json result"
  and toJSON_all :: "nat \<Rightarrow> TycoContext \<Rightarrow> node list \<Rightarrow> json list result"
  and toJSON_fields :: "nat \<Rightarrow> TycoContext \<Rightarrow> (string \<times> node) list \<Rightarrow> (string \<times> json) list result" where
  "toJSON n ctx (Value v) = Some (Inr (rendered_json (rendered v)))"
| "toJSON n ctx (Array i xs) = map_result JArr (toJSON_all n ctx xs)"
| "toJSON n ctx (Instance i fs) = map_result object_of (toJSON_fields n ctx fs)"
| "toJSON n ctx (Reference i args None) = Some (Inl JsTypeError)"
| "toJSON 0 ctx (Reference i args (Some k)) = None"
| "toJSON (Suc n) ctx (Reference i args (Some k)) =
     (case deref ctx (typeName i) k of
        None \<Rightarrow> Some (Inl JsTypeError)
      | Some inst \<Rightarrow> toJSON n ctx inst)"
| "toJSON_all n ctx [] = Some (Inr [])"
| "toJSON_all n ctx (x # xs) = cons_result (toJSON n ctx x) (toJSON_all n ctx xs)"
| "toJSON_fields n ctx [] = Some (Inr [])"
| "toJSON_fields n ctx ((a, x) # fs) =
     cons_result (map_result (Pair a) (toJSON n ctx x)) (toJSON_fields n ctx fs)"







section \<open>Files and includes (coerceContentToFragments, TycoLexer.fromPath, TycoLexer.process)\<close>

text \<open>
  \<open>coerceContentToFragments\<close>: \<open>\r\n\<close> becomes \<open>\n\<close>; the content is cut after every
  \<open>\n\<close>; each piece is a fragment at column 1 of the next row, whose \<open>lineText\<close> is the
  piece without the \<open>\n\<close>. Empty content gives no fragment.
\<close>

fun normalize_crlf :: "string \<Rightarrow> string" where
  "normalize_crlf (a # b # cs) =
     (if a = CHR 0x0D \<and> b = CHR 0x0A then b # normalize_crlf cs else a # normalize_crlf (b # cs))"
| "normalize_crlf cs = cs"

fun split_lines :: "string \<Rightarrow> string \<Rightarrow> string list" where
  "split_lines acc [] = (if acc = [] then [] else [acc])"
| "split_lines acc (c # cs) =
     (if c = CHR 0x0A then (acc @ [c]) # split_lines [] cs else split_lines (acc @ [c]) cs)"

definition line_fragment :: "string option \<Rightarrow> nat \<times> string \<Rightarrow> SourceFragment" where
  "line_fragment src p =
     (case p of (k, line) \<Rightarrow>
        \<lparr>text_of = line, row = int k + 1, column = 1, source = src,
         lineText = (if line \<noteq> [] \<and> last line = CHR 0x0A then butlast line else line)\<rparr>)"

definition coerceContentToFragments :: "string \<Rightarrow> string option \<Rightarrow> SourceFragment list" where
  "coerceContentToFragments body src =
     map (line_fragment src) (enumerate 0 (split_lines [] (normalize_crlf body)))"

text \<open>
  The test for an include line, \<open>line.text.trimEnd().match(/^#include\s+(\S.*)$/)\<close>: the
  word, white space, and a path that runs to the end of the trimmed line. The dot of the
  pattern matches no line terminator.
\<close>

definition include_target :: "string \<Rightarrow> string option" where
  "include_target line =
     (let t = trimEnd line; r = drop 8 t; p = dropWhile is_ws r
      in if startsWith t ''#include'' \<and> takeWhile is_ws r \<noteq> [] \<and> p \<noteq> [] \<and>
            CHR 0x0A \<notin> set p \<and> CHR 0x0D \<notin> set p
         then Some p else None)"

text \<open>
  What the lexer takes from outside. \<open>files\<close> gives the content of a path that is a
  regular file. \<open>isAbsolute\<close> is \<open>path.isAbsolute\<close>, and \<open>joinDir\<close> joins a relative path
  to the directory of the including file (or to the working directory when the lexer has
  no path). \<open>other_lines\<close> stands for the branches of \<open>process\<close> for a line that is no
  include (a global, a struct block with its schema, defaults and rows, a blank line, or
  the \<open>Malformatted\<close> error): they read further lines of the same lexer and change the
  context, and they never open a file.
\<close>

record lexer_env =
  files :: "string \<Rightarrow> string option"
  isAbsolute :: "string \<Rightarrow> bool"
  joinDir :: "string option \<Rightarrow> string \<Rightarrow> string"
  other_lines :: "TycoContext \<times> TycoLexer \<Rightarrow> SourceFragment \<Rightarrow> error + TycoContext \<times> TycoLexer"

text \<open>The defaults of an included lexer are copied; a struct that has defaults already is an error.\<close>

fun merge_defaults :: "(string \<times> 'd) list \<Rightarrow> (string \<times> 'd) list \<Rightarrow> error + (string \<times> 'd) list" where
  "merge_defaults mine [] = Inr mine"
| "merge_defaults mine ((t, d) # rest) =
     (if map_has mine t then Inl DefaultsClash else merge_defaults (map_set mine t d) rest)"

text \<open>
  \<open>process\<close> and \<open>fromPath\<close> call each other, and nothing in them bounds the depth of
  includes. Each call, and each round of the loop of \<open>process\<close>, uses one unit of fuel;
  \<open>None\<close> is the answer when the fuel does not suffice. \<open>fromPath\<close> enters a lexer into
  \<open>pathCache\<close> after its \<open>process\<close> has returned. The lexer that \<open>fromPath\<close> returns is the
  object in the cache, so what the second \<open>process\<close> of an include line does to it is
  written to the cache as well.
\<close>

fun process :: "nat \<Rightarrow> lexer_env \<Rightarrow> TycoContext \<Rightarrow> TycoLexer \<Rightarrow> (TycoContext \<times> TycoLexer) result"
  and fromPath :: "nat \<Rightarrow> lexer_env \<Rightarrow> TycoContext \<Rightarrow> string \<Rightarrow> (TycoContext \<times> TycoLexer) result" where
  "process 0 env ctx lx = None"
| "process (Suc n) env ctx lx =
     (case lines lx of
        [] \<Rightarrow> Some (Inr (ctx, lx))
      | line # rest \<Rightarrow>
          (case include_target (text_of line) of
             Some inc \<Rightarrow>
               (let includePath = (if isAbsolute env inc then inc else joinDir env (path lx) inc)
                in case fromPath n env ctx includePath of
                     None \<Rightarrow> None
                   | Some (Inl e) \<Rightarrow> Some (Inl e)
                   | Some (Inr (ctx1, lexer)) \<Rightarrow>
                       (case process n env ctx1 lexer of
                          None \<Rightarrow> None
                        | Some (Inl e) \<Rightarrow> Some (Inl e)
                        | Some (Inr (ctx2, lexer2)) \<Rightarrow>
                            (case merge_defaults (defaults lx) (defaults lexer2) of
                               Inl e \<Rightarrow> Some (Inl e)
                             | Inr d \<Rightarrow>
                                 process n env
                                   (ctx2\<lparr>pathCache := map_set (pathCache ctx2) includePath lexer2\<rparr>)
                                   (lx\<lparr>lines := rest, defaults := d\<rparr>))))
           | None \<Rightarrow>
               (case other_lines env (ctx, lx\<lparr>lines := rest\<rparr>) line of
                  Inl e \<Rightarrow> Some (Inl e)
                | Inr (ctx', lx') \<Rightarrow> process n env ctx' lx')))"
| "fromPath 0 env ctx filePath = None"
| "fromPath (Suc n) env ctx filePath =
     (case map_of (pathCache ctx) filePath of
        Some lexer \<Rightarrow> Some (Inr (ctx, lexer))
      | None \<Rightarrow>
          (case files env filePath of
             None \<Rightarrow> Some (Inl FileAccess)
           | Some body \<Rightarrow>
               (case process n env ctx
                       \<lparr>lines = coerceContentToFragments body (Some filePath),
                        path = Some filePath, defaults = []\<rparr> of
                  None \<Rightarrow> None
                | Some (Inl e) \<Rightarrow> Some (Inl e)
                | Some (Inr (ctx', lexer)) \<Rightarrow>
                    Some (Inr (ctx'\<lparr>pathCache := map_set (pathCache ctx') filePath lexer\<rparr>, lexer)))))"

text \<open>
  The first two steps of \<open>parseFile\<close>, on a new context: \<open>fromPath\<close>, then \<open>process\<close> on the
  lexer it returns. (\<open>renderContent\<close> and \<open>toObject\<close> follow.)
\<close>

definition new_context :: TycoContext where
  "new_context = \<lparr>pathCache = [], structs = [], globals = []\<rparr>"

definition parseFile_lexing :: "nat \<Rightarrow> lexer_env \<Rightarrow> string \<Rightarrow> (TycoContext \<times> TycoLexer) result" where
  "parseFile_lexing n env filePath =
     (case fromPath n env new_context filePath of
        None \<Rightarrow> None
      | Some (Inl e) \<Rightarrow> Some (Inl e)
      | Some (Inr (ctx, lexer)) \<Rightarrow> process n env ctx lexer)"

section \<open>Notions of the specification\<close>

text \<open>
  The position rule as the specification words it: a newline bumps the row and resets the
  column, every other character moves the column by one.
\<close>

fun spec_advance :: "int \<times> int \<Rightarrow> string \<Rightarrow> int \<times> int" where
  "spec_advance (r, c) [] = (r, c)"
| "spec_advance (r, c) (ch # cs) =
     (if ch = CHR 0x0A then spec_advance (r + 1, 1) cs else spec_advance (r, c + 1) cs)"

text \<open>The same rule with the carriage return of the code added.\<close>

fun step_position :: "int \<times> int \<Rightarrow> char \<Rightarrow> int \<times> int" where
  "step_position (r, c) ch =
     (if ch = CHR 0x0A then (r + 1, 1) else if ch = CHR 0x0D then (r, 1) else (r, c + 1))"

text \<open>
  The digits that \<open>parseInt\<close> reads from a string in a radix: white space is skipped, then
  one sign, then for radix 16 a prefix \<open>0x\<close> or \<open>0X\<close>; the longest run of digits of the
  radix that follows is the run. A digit string is a valid literal of the radix when it is
  not empty and consists of such digits only.
\<close>

definition leading_digit_run :: "nat \<Rightarrow> string \<Rightarrow> string" where
  "leading_digit_run R s =
     (let s1 = dropWhile is_ws s;
          s2 = (if startsWith s1 ''+'' \<or> startsWith s1 ''-'' then drop 1 s1 else s1);
          s3 = (if R = 16 \<and> (startsWith s2 ''0x'' \<or> startsWith s2 ''0X'') then drop 2 s2 else s2)
      in takeWhile (is_radix_digit R) s3)"

definition valid_literal :: "nat \<Rightarrow> string \<Rightarrow> bool" where
  "valid_literal R ds = (ds \<noteq> [] \<and> list_all (is_radix_digit R) ds)"

text \<open>The base that the specification attaches to each prefix.\<close>

definition prefix_bases :: "(string \<times> nat) list" where
  "prefix_bases =
     [(''0x'', 16), (''0X'', 16), (''0o'', 8), (''0O'', 8), (''0b'', 2), (''0B'', 2), ([], 10)]"

text \<open>
  The interior of a literal string written between the delimiters \<open>d\<close>: after a triple
  delimiter one leading line separator is dropped.
\<close>

definition literal_interior :: "host \<Rightarrow> string \<Rightarrow> string \<Rightarrow> string" where
  "literal_interior h d body =
     (if d = [CHR 0x27, CHR 0x27, CHR 0x27] \<and> startsWith body (EOL h)
      then drop (length (EOL h)) body else body)"










section \<open>Examples\<close>

text \<open>
  A host for the examples: line feed as \<open>os.EOL\<close> (as on POSIX systems), and the decimal
  form of an integer below \<open>10^21\<close> as the string of a number. Its other answers (the
  string of any other number, \<open>parseFloat\<close>, a code point above 255) are placeholders,
  and no example below asks for them.
\<close>

function nat_to_string :: "nat \<Rightarrow> string" where
  "nat_to_string n =
     (if n < 10 then [char_of (48 + n)] else nat_to_string (n div 10) @ [char_of (48 + n mod 10)])"
  by pat_completeness auto
termination
  by (relation "measure id") auto

declare nat_to_string.simps [simp del]

definition sample_numberToString :: "number \<Rightarrow> string" where
  "sample_numberToString x =
     (case x of
        NaN \<Rightarrow> ''NaN''
      | PosInf \<Rightarrow> ''Infinity''
      | NegInf \<Rightarrow> ''-Infinity''
      | Fin r \<Rightarrow>
          if r = of_int \<lfloor>r\<rfloor> \<and> \<bar>r\<bar> < 10 ^ 21
          then (if r < 0 then ''-'' else []) @ nat_to_string (nat \<bar>\<lfloor>r\<rfloor>\<bar>)
          else ''?'')"

definition sample_parseFloat :: "string \<Rightarrow> number" where
  "sample_parseFloat s = NaN"

definition sample_fromCodePoint :: "nat \<Rightarrow> string option" where
  "sample_fromCodePoint cp = (if cp < 256 then Some [char_of cp] else None)"

definition sample_host :: host where
  "sample_host =
     \<lparr>EOL = [CHR 0x0A], parseFloat = sample_parseFloat,
      numberToString = sample_numberToString, fromCodePoint = sample_fromCodePoint\<rparr>"

text \<open>A primitive of type \<open>int\<close> as the lexer and the schema leave it, for the examples.\<close>

definition ex_int :: "string \<Rightarrow> TycoValue" where
  "ex_int c =
     \<lparr>typeName = Def ''int'', attrName = Def ''port'', isNullable = Some False,
      isArray = Some False, fragment = None,
      content = c, isLiteralStr = False, rendered = UNRENDERED\<rparr>"

text \<open>The structs of the fourth scenario of the specification, base-rendered.\<close>

definition ex_value :: "string js \<Rightarrow> string js \<Rightarrow> string \<Rightarrow> rendered \<Rightarrow> node" where
  "ex_value t a c r =
     Value \<lparr>typeName = t, attrName = a, isNullable = Some False, isArray = Some False,
            fragment = None, content = c, isLiteralStr = False, rendered = r\<rparr>"


definition ex_header :: "string \<Rightarrow> string js \<Rightarrow> SchemaInfo" where
  "ex_header t a =
     \<lparr>typeName = Def t, attrName = a, isNullable = None, isArray = None, fragment = None\<rparr>"







text \<open>
  A global \<open>g\<close>, a struct \<open>T\<close> whose only row has the field \<open>s: "{global.g}"\<close>, after
  base rendering, and a literal string.
\<close>

definition ex_g :: node where
  "ex_g = ex_value (Def ''str'') (Def ''g'') ''hello'' (RStr ''hello'')"

definition ex_s :: TycoValue where
  "ex_s =
     \<lparr>typeName = Def ''str'', attrName = Def ''s'', isNullable = Some False,
      isArray = Some False, fragment = None,
      content = [CHR 0x22] @ ''{global.g}'' @ [CHR 0x22], isLiteralStr = False,
      rendered = RStr ''{global.g}''\<rparr>"

definition ex_T_row :: node where
  "ex_T_row =
     Instance (ex_header ''T'' Null)
       [(''name'', ex_value (Def ''str'') (Def ''name'') ''a'' (RStr ''a'')),
        (''s'', Value ex_s)]"

definition ex_T :: TycoStruct where
  "ex_T =
     \<lparr>structName = ''T'', attrTypes = [(''name'', ''str''), (''s'', ''str'')],
      primaryKeys = [''name''], nullableKeys = [], arrayKeys = [],
      instances = [ex_T_row], mappedInstances = [(''a'', 0)]\<rparr>"

definition ex_template_ctx :: TycoContext where
  "ex_template_ctx = \<lparr>pathCache = [], structs = [(''T'', ex_T)], globals = [(''g'', ex_g)]\<rparr>"

definition ex_literal :: TycoValue where
  "ex_literal =
     \<lparr>typeName = Def ''str'', attrName = Def ''literal'', isNullable = Some False,
      isArray = Some False, fragment = None,
      content = [CHR 0x27, CHR 0x27, CHR 0x27] @ (CHR 0x0A # ''no {subst}'') @ [CHR 0x27, CHR 0x27, CHR 0x27],
      isLiteralStr = False, rendered = UNRENDERED\<rparr>"
























text \<open>
  Two files that include each other, by absolute path, on a POSIX host.
\<close>

definition include_line :: "string \<Rightarrow> string" where
  "include_line p = ''#include '' @ p @ [CHR 0x0A]"

definition cyclic_files :: "string \<Rightarrow> string option" where
  "cyclic_files p =
     (if p = ''/a.tyco'' then Some (include_line ''/b.tyco'')
      else if p = ''/b.tyco'' then Some (include_line ''/a.tyco'')
      else None)"

definition posix_isAbsolute :: "string \<Rightarrow> bool" where
  "posix_isAbsolute p = startsWith p ''/''"

definition cyclic_env :: "(string option \<Rightarrow> string \<Rightarrow> string)
    \<Rightarrow> (TycoContext \<times> TycoLexer \<Rightarrow> SourceFragment \<Rightarrow> error + TycoContext \<times> TycoLexer) \<Rightarrow> lexer_env" where
  "cyclic_env j d = \<lparr>files = cyclic_files, isAbsolute = posix_isAbsolute, joinDir = j, other_lines = d\<rparr>"

text \<open>Two files without a cycle: the second is empty.\<close>

definition chain_files :: "string \<Rightarrow> string option" where
  "chain_files p =
     (if p = ''/a.tyco'' then Some (include_line ''/b.tyco'')
      else if p = ''/b.tyco'' then Some []
      else None)"

definition chain_env :: "(string option \<Rightarrow> string \<Rightarrow> string)
    \<Rightarrow> (TycoContext \<times> TycoLexer \<Rightarrow> SourceFragment \<Rightarrow> error + TycoContext \<times> TycoLexer) \<Rightarrow> lexer_env" where
  "chain_env j d = \<lparr>files = chain_files, isAbsolute = posix_isAbsolute, joinDir = j, other_lines = d\<rparr>"

section \<open>Verified properties\<close>

subsection \<open>Source fragments\<close>

lemma advance_loop_fold:
  "i \<le> k \<Longrightarrow> k \<le> length t \<Longrightarrow>
   advance_loop t i (real k) p = foldl step_position p (take (k - i) (drop i t))"
proof (induction "k - i" arbitrary: i p)
  case 0
  then have "i = k" by simp
  obtain r c where p: "p = (r, c)" by (cases p)
  show ?case unfolding p \<open>i = k\<close> by (subst advance_loop.simps) simp
next
  case (Suc n)
  obtain r c where p: "p = (r, c)" by (cases p)
  from Suc have lt: "i < k" and il: "i < length t" by auto
  from Suc have n: "n = k - Suc i" by simp
  have dr: "drop i t = t ! i # drop (Suc i) t"
    using il by (simp add: Cons_nth_drop_Suc)
  have tk: "take (k - i) (drop i t) = t ! i # take (k - Suc i) (drop (Suc i) t)"
    using lt dr by (metis Suc.hyps(2) n take_Suc_Cons)
  have IH: "\<And>q. advance_loop t (Suc i) (real k) q =
      foldl step_position q (take (k - Suc i) (drop (Suc i) t))"
    using Suc.hyps(1)[OF n] lt Suc.prems by simp
  show ?case unfolding p tk
    by (subst advance_loop.simps) (use lt il IH in simp)
qed

lemma clamp_range:
  assumes "lo = Fin a" "hi = Fin b" "a \<le> b"
  shows "\<exists>x. clamp v lo hi = Fin x \<and> a \<le> x \<and> x \<le> b"
  using assms by (cases v) (auto simp: clamp_def)

text \<open>
  C8, as stated: after \<open>slice(k)\<close> the position is the old one advanced over the \<open>k\<close>
  consumed characters, a newline bumping the row and resetting the column and every other
  character adding one to the column. This fails on a carriage return: slicing one
  character off the text \<open>"\r"\<close> at (1, 1) gives column 1, where the stated rule gives
  column 2.
\<close>

theorem slice_position_counterexample:
  "(row (slice \<lparr>text_of = [CHR 0x0D], row = 1, column = 1, source = None, lineText = []\<rparr>
          (Some (Fin 1)) None),
    column (slice \<lparr>text_of = [CHR 0x0D], row = 1, column = 1, source = None, lineText = []\<rparr>
          (Some (Fin 1)) None))
   = (1, 1) \<and>
   spec_advance (1, 1) (take 1 [CHR 0x0D]) = (1, 2)"
  using advance_loop_fold[of 0 1 "[CHR 0x0D]" "(1, 1)"]
  by (simp add: slice_def actualStart_def actualEnd_def clamp_def advance_def str_slice_def)

text \<open>
  C8, amended: for every fragment \<open>f\<close> and every \<open>k\<close> with \<open>0 \<le> k \<le> length f.text\<close>,
  \<open>f.slice(k)\<close> is the rest of the text after \<open>k\<close> characters, at the position of \<open>f\<close>
  advanced over the \<open>k\<close> consumed characters, where a line feed increments the row and
  resets the column to 1, a carriage return resets the column to 1 and keeps the row, and
  every other character increments the column by 1; \<open>source\<close> and \<open>lineText\<close> are kept.
\<close>

theorem slice_position:
  assumes "k \<le> length (text_of f)"
  shows "slice f (Some (Fin (real k))) None =
     \<lparr>text_of = drop k (text_of f),
      row = fst (foldl step_position (row f, column f) (take k (text_of f))),
      column = snd (foldl step_position (row f, column f) (take k (text_of f))),
      source = source f, lineText = lineText f\<rparr>"
proof -
  have s: "actualStart f (Some (Fin (real k))) = Fin (real k)"
    using assms by (simp add: actualStart_def clamp_def)
  have e: "actualEnd f (Some (Fin (real k))) None = Fin (real (length (text_of f)))"
    using assms by (simp add: actualEnd_def s clamp_def)
  have adv: "advance f (Fin (real k)) =
      foldl step_position (row f, column f) (take k (text_of f))"
    using assms advance_loop_fold[of 0 k "text_of f"] by (simp add: advance_def)
  show ?thesis
    using assms by (simp add: slice_def s e adv str_slice_def Let_def split: prod.splits)
qed

theorem slice_position_witness:
  "slice \<lparr>text_of = ''a'' @ [CHR 0x0D, CHR 0x0A] @ ''bc'', row = 3, column = 5,
          source = None, lineText = ''a''\<rparr>
     (Some (Fin (real (4::nat)))) None =
   \<lparr>text_of = ''c'', row = 4, column = 2, source = None, lineText = ''a''\<rparr>"
  using slice_position[of 4 "\<lparr>text_of = ''a'' @ [CHR 0x0D, CHR 0x0A] @ ''bc'', row = 3,
          column = 5, source = None, lineText = ''a''\<rparr>"]
  by simp

text \<open>
  C10: \<open>slice\<close> has no failing branch, whatever the two arguments are (omitted, NaN,
  negative, fractional, infinite or past the end). The start is clamped into
  \<open>[0, length]\<close>, the end into \<open>[start, length]\<close>, and the text of the result is the
  contiguous piece of the original text between the two (truncated) bounds.
\<close>

theorem slice_total_clamped:
  "\<exists>a b. actualStart f start = Fin a \<and> actualEnd f start endn = Fin b \<and>
     0 \<le> a \<and> a \<le> b \<and> b \<le> real (length (text_of f)) \<and>
     text_of (slice f start endn) =
       take (nat \<lfloor>b\<rfloor> - nat \<lfloor>a\<rfloor>) (drop (nat \<lfloor>a\<rfloor>) (text_of f))"
proof -
  obtain a where a: "actualStart f start = Fin a" "0 \<le> a" "a \<le> real (length (text_of f))"
    using clamp_range[of "Fin 0" 0 "Fin (real (length (text_of f)))" "real (length (text_of f))"]
    unfolding actualStart_def by fastforce
  obtain b where b: "actualEnd f start endn = Fin b" "a \<le> b" "b \<le> real (length (text_of f))"
    using clamp_range[of "actualStart f start" a "Fin (real (length (text_of f)))"
        "real (length (text_of f))"] a
    unfolding actualEnd_def by fastforce
  have fa: "nat \<lfloor>a\<rfloor> \<le> length (text_of f)" using a by linarith
  have fb: "nat \<lfloor>b\<rfloor> \<le> length (text_of f)" using b a by linarith
  have "text_of (slice f start endn) =
      take (nat \<lfloor>b\<rfloor> - nat \<lfloor>a\<rfloor>) (drop (nat \<lfloor>a\<rfloor>) (text_of f))"
    using a b fa fb by (simp add: slice_def str_slice_def Let_def split: prod.splits)
  with a b show ?thesis by blast
qed

subsection \<open>Base rendering of integers\<close>

lemma digit_not_ws: "is_radix_digit R c \<Longrightarrow> \<not> is_ws c"
  by (auto simp: is_radix_digit_def digit_value_def is_ws_def Let_def split: if_splits option.splits)

lemma digit_not_sign: "is_radix_digit R c \<Longrightarrow> c \<noteq> CHR ''-'' \<and> c \<noteq> CHR ''+''"
  by (auto simp: is_radix_digit_def digit_value_def Let_def split: if_splits option.splits)

lemma x_not_hex: "\<not> is_radix_digit 16 CHR ''x''" "\<not> is_radix_digit 16 CHR ''X''"
  by (simp_all add: is_radix_digit_def digit_value_def)

lemma letters_not_decimal:
  "\<not> is_radix_digit 10 CHR ''x''" "\<not> is_radix_digit 10 CHR ''X''"
  "\<not> is_radix_digit 10 CHR ''o''" "\<not> is_radix_digit 10 CHR ''O''"
  "\<not> is_radix_digit 10 CHR ''b''" "\<not> is_radix_digit 10 CHR ''B''"
  by (simp_all add: is_radix_digit_def digit_value_def)

lemma parseInt_digits:
  assumes "ds \<noteq> []" "\<forall>c\<in>set ds. is_radix_digit R c" "R \<in> {2, 8, 10, 16}"
  shows "parseInt ds R = round_to_double (int (digits_value R ds))"
proof -
  obtain d ds' where ds: "ds = d # ds'" using assms(1) by (cases ds) auto
  have d: "is_radix_digit R d" using assms(2) ds by simp
  have t: "trimStart ds = ds" using digit_not_ws[OF d] by (simp add: trimStart_def ds)
  have s: "\<not> startsWith ds ''-''" "\<not> startsWith ds ''+''"
    using digit_not_sign[OF d] by (auto simp: startsWith_def ds)
  have hx: "R = 16 \<Longrightarrow> \<not> startsWith ds ''0x'' \<and> \<not> startsWith ds ''0X''"
    using assms(2) x_not_hex by (cases ds') (auto simp: startsWith_def ds)
  have tw: "takeWhile (is_radix_digit R) ds = ds" using assms(2) by (simp add: takeWhile_eq_all_conv)
  show ?thesis
    using assms(1,3) hx by (auto simp: parseInt_def t s tw Let_def)
qed

lemma substring_drop: "substring s (int k) (int (length s)) = drop k s"
  by (simp add: substring_def Let_def min_def max_def)

lemma split_sign_cases:
  assumes "ds \<noteq> []" "\<not> startsWith ds ''-''" "\<not> startsWith ds ''+''" "sg \<in> {[], ''+'', ''-''}"
  shows "split_sign (sg @ ds) = (if sg = ''-'' then - 1 else 1, ds)"
  using assms substring_drop[of "sg @ ds" 1]
  by (auto simp: split_sign_def startsWith_def)

lemma split_base_cases:
  assumes "(pfx, R) \<in> set prefix_bases" "ds \<noteq> []" "\<forall>c\<in>set ds. is_radix_digit R c"
  shows "split_base (pfx @ ds) = (R, ds)"
proof (cases "pfx = []")
  case True
  then have R: "R = 10" using assms(1) by (auto simp: prefix_bases_def)
  obtain d ds' where ds: "ds = d # ds'" using assms(2) by (cases ds) auto
  have "\<not> startsWith ds p" if "p \<in> {''0x'', ''0X'', ''0o'', ''0O'', ''0b'', ''0B''}" for p
    using that assms(3) letters_not_decimal unfolding R ds
    by (cases ds') (auto simp: startsWith_def)
  then show ?thesis using True R by (simp add: split_base_def)
next
  case False
  then show ?thesis
    using assms(1) substring_drop[of "pfx @ ds" 2]
    by (auto simp: prefix_bases_def split_base_def startsWith_def)
qed


lemma round_to_double_not_NaN: "round_to_double n \<noteq> NaN"
  unfolding round_to_double_def Let_def by (simp only: if_distrib[of "\<lambda>x. x \<noteq> NaN"] number.distinct split: if_split) simp

lemma startsWith_single: "startsWith s [c] = (s \<noteq> [] \<and> hd s = c)"
  by (cases s) (auto simp: startsWith_def)

lemma parseInt_NaN_iff:
  assumes "R \<in> {2, 8, 10, 16}"
  shows "(parseInt s R = NaN) = (leading_digit_run R s = [])"
proof -
  have r: "R \<noteq> 0" "\<not> (R < 2 \<or> 36 < R)" using assms by auto
  define S1 where "S1 = dropWhile is_ws s"
  define S2 where "S2 = (if startsWith S1 ''+'' \<or> startsWith S1 ''-'' then drop 1 S1 else S1)"
  have l: "leading_digit_run R s =
     takeWhile (is_radix_digit R)
       (if R = 16 \<and> (startsWith S2 ''0x'' \<or> startsWith S2 ''0X'') then drop 2 S2 else S2)"
    unfolding leading_digit_run_def Let_def S1_def[symmetric]
    unfolding S2_def[symmetric] by simp
  show ?thesis
  proof (cases "R = 16 \<and> (startsWith S2 ''0x'' \<or> startsWith S2 ''0X'')")
    case True
    have "parseInt s R = (if takeWhile (is_radix_digit 16) (drop 2 S2) = [] then NaN
       else round_to_double ((if startsWith S1 ''-'' then - 1 else 1) *
              int (digits_value 16 (takeWhile (is_radix_digit 16) (drop 2 S2)))))"
      unfolding parseInt_def trimStart_def Let_def S1_def[symmetric]
      unfolding S2_def[symmetric]
      using True by simp
    then show ?thesis unfolding l using True round_to_double_not_NaN by simp
  next
    case False
    then have hx: "\<not> ((R = 0 \<or> R = 16) \<and> (startsWith S2 ''0x'' \<or> startsWith S2 ''0X''))"
      using r by auto
    have "parseInt s R = (if takeWhile (is_radix_digit R) S2 = [] then NaN
       else round_to_double ((if startsWith S1 ''-'' then - 1 else 1) *
              int (digits_value R (takeWhile (is_radix_digit R) S2))))"
      unfolding parseInt_def trimStart_def Let_def S1_def[symmetric]
      unfolding S2_def[symmetric]
      using r hx by (cases "R = 16") simp_all
    then show ?thesis unfolding l using False round_to_double_not_NaN by auto
  qed
qed

lemma num_mult_unit_NaN: "s \<noteq> 0 \<Longrightarrow> (num_mult (Fin s) x = NaN) = (x = NaN)"
  by (cases x) auto

lemma split_base_radix: "fst (split_base d) \<in> {2, 8, 10, 16}"
  by (simp add: split_base_def)

lemma split_sign_unit: "fst (split_sign c) \<noteq> 0"
  by (simp add: split_sign_def)


text \<open>
  C6: a primitive of type \<open>int\<close> whose content is an optional sign, then one of the
  prefixes \<open>0x/0X\<close> (base 16), \<open>0o/0O\<close> (base 8), \<open>0b/0B\<close> (base 2) or none (base 10),
  then a non-empty string of digits of that base, renders to the number that the digits
  denote in the base, with the sign applied to it. The witness evaluates \<open>0xFF\<close>, \<open>0o777\<close>,
  \<open>0b1010\<close> and \<open>-42\<close>.
\<close>

theorem int_base_rendering:
  assumes "typeName v = Def ''int''" "attrName v \<noteq> Null" "isNullable v \<noteq> None" "isArray v \<noteq> None"
    and "sg \<in> {[], ''+'', ''-''}" "(pfx, R) \<in> set prefix_bases" "valid_literal R ds"
    and "content v = sg @ pfx @ ds"
  shows "TycoValue_renderBaseContent h v =
     Inr (v\<lparr>rendered := RNum (num_mult (Fin (if sg = ''-'' then - 1 else 1))
                                   (round_to_double (int (digits_value R ds))))\<rparr>)"
proof -
  have ds: "ds \<noteq> []" "\<forall>c\<in>set ds. is_radix_digit R c"
    using assms(7) by (auto simp: valid_literal_def list_all_iff)
  have R: "R \<in> {2, 8, 10, 16}" using assms(6) by (auto simp: prefix_bases_def)
  obtain d ds' where dsc: "ds = d # ds'" using ds(1) by (cases ds) auto
  have d0: "is_radix_digit R d" using ds(2) dsc by simp
  have hd_body: "pfx @ ds \<noteq> []" "\<not> startsWith (pfx @ ds) ''-''" "\<not> startsWith (pfx @ ds) ''+''"
    using assms(6) digit_not_sign[OF d0] by (auto simp: prefix_bases_def startsWith_def dsc)
  have nn: "content v \<noteq> ''null''"
    using assms(5,6,8) d0 unfolding dsc
    by (auto simp: prefix_bases_def is_radix_digit_def digit_value_def)
  have ri: "render_int (content v) =
      num_mult (Fin (if sg = ''-'' then - 1 else 1)) (round_to_double (int (digits_value R ds)))"
    unfolding render_int_def assms(8)
    using split_sign_cases[OF hd_body assms(5)] split_base_cases[OF assms(6) ds]
      parseInt_digits[OF ds R]
    by simp
  show ?thesis
    using assms(1-4) nn by (simp add: TycoValue_renderBaseContent_def ri)
qed

theorem int_base_rendering_witness:
  "TycoValue_renderBaseContent sample_host (ex_int ''0xFF'') = Inr ((ex_int ''0xFF'')\<lparr>rendered := RNum (Fin 255)\<rparr>) \<and>
   TycoValue_renderBaseContent sample_host (ex_int ''0o777'') = Inr ((ex_int ''0o777'')\<lparr>rendered := RNum (Fin 511)\<rparr>) \<and>
   TycoValue_renderBaseContent sample_host (ex_int ''0b1010'') = Inr ((ex_int ''0b1010'')\<lparr>rendered := RNum (Fin 10)\<rparr>) \<and>
   TycoValue_renderBaseContent sample_host (ex_int ''-42'') = Inr ((ex_int ''-42'')\<lparr>rendered := RNum (Fin (- 42))\<rparr>)"
  using int_base_rendering[of "ex_int ''0xFF''" "[]" "''0x''" 16 "''FF''" sample_host]
    int_base_rendering[of "ex_int ''0o777''" "[]" "''0o''" 8 "''777''" sample_host]
    int_base_rendering[of "ex_int ''0b1010''" "[]" "''0b''" 2 "''1010''" sample_host]
    int_base_rendering[of "ex_int ''-42''" "''-''" "[]" 10 "''42''" sample_host]
  by (simp add: ex_int_def prefix_bases_def valid_literal_def is_radix_digit_def digit_value_def
      digits_value_def round_to_double_def)


text \<open>
  C9, as stated: content that is not a valid integer literal renders to NaN. This fails
  for \<open>12abc\<close>: \<open>parseInt\<close> converts the leading digits and ignores the rest, so the
  value is 12.
\<close>

theorem int_rendering_counterexample:
  "\<not> valid_literal 10 ''12abc'' \<and>
   TycoValue_renderBaseContent sample_host (ex_int ''12abc'') = Inr ((ex_int ''12abc'')\<lparr>rendered := RNum (Fin 12)\<rparr>)"
  by (simp add: valid_literal_def TycoValue_renderBaseContent_def ex_int_def render_int_def
      split_sign_def split_base_def startsWith_def parseInt_def trimStart_def is_ws_def
      is_radix_digit_def digit_value_def digits_value_def round_to_double_def)

text \<open>
  C9, amended: base rendering of a non-null \<open>int\<close> primitive (with its schema attributes
  set) raises no error, so no \<open>InvalidNumber\<close>; the rendered value is a number, and it is
  NaN exactly when \<open>parseInt\<close> finds no digit of the selected base at the start of the
  digit string (after white space, one further sign and, in base 16, one further \<open>0x\<close>),
  as for \<open>abc\<close> or an empty digit string.
\<close>

theorem int_rendering_total:
  assumes "typeName v = Def ''int''" "attrName v \<noteq> Null" "isNullable v \<noteq> None" "isArray v \<noteq> None"
    and "\<not> (isNullable v = Some True \<and> content v = ''null'')"
  shows "\<exists>n. TycoValue_renderBaseContent h v = Inr (v\<lparr>rendered := RNum n\<rparr>) \<and>
     (n = NaN \<longleftrightarrow>
        (case split_base (snd (split_sign (content v))) of
           (R, digits) \<Rightarrow> leading_digit_run R digits = []))"
proof -
  obtain sign body where ss: "split_sign (content v) = (sign, body)" by (cases "split_sign (content v)")
  obtain R digits where sb: "split_base body = (R, digits)" by (cases "split_base body")
  have R: "R \<in> {2, 8, 10, 16}" using split_base_radix[of body] sb by simp
  have sg: "sign \<noteq> 0" using split_sign_unit[of "content v"] ss by simp
  have "render_int (content v) = num_mult (Fin sign) (parseInt digits R)"
    by (simp add: render_int_def ss sb)
  moreover have "(num_mult (Fin sign) (parseInt digits R) = NaN) = (leading_digit_run R digits = [])"
    using num_mult_unit_NaN[OF sg] parseInt_NaN_iff[OF R] by simp
  moreover have "TycoValue_renderBaseContent h v = Inr (v\<lparr>rendered := RNum (render_int (content v))\<rparr>)"
    using assms by (auto simp: TycoValue_renderBaseContent_def)
  ultimately show ?thesis
    by (intro exI[of _ "render_int (content v)"]) (simp add: ss sb)
qed

theorem int_rendering_total_witness:
  "TycoValue_renderBaseContent sample_host (ex_int ''abc'') = Inr ((ex_int ''abc'')\<lparr>rendered := RNum NaN\<rparr>) \<and>
   TycoValue_renderBaseContent sample_host (ex_int ''0x'') = Inr ((ex_int ''0x'')\<lparr>rendered := RNum NaN\<rparr>)"
  using int_rendering_total[of "ex_int ''abc''" sample_host]
    int_rendering_total[of "ex_int ''0x''" sample_host]
  by (auto simp add: ex_int_def split_sign_def split_base_def startsWith_def substring_def
     leading_digit_run_def is_ws_def is_radix_digit_def digit_value_def)

subsection \<open>Primary keys and references\<close>





















subsection \<open>Literal strings and templates\<close>

lemma substring_middle:
  "substring (a @ b @ c) (int (length a)) (int (length (a @ b @ c)) - int (length c)) = b"
  by (simp add: substring_def Let_def min_def max_def)

text \<open>
  C7: a \<open>str\<close> primitive whose content is a body between two triple single quotes, or
  between two single quotes, is base-rendered to the interior (the body, less one leading
  line separator after the triple delimiter), and neither \<open>renderReferences\<close> nor
  \<open>renderTemplates\<close> changes it any further: no template is substituted and no escape
  applied.
\<close>

theorem literal_string_fixed:
  assumes "typeName v = Def ''str''" "attrName v \<noteq> Null" "isNullable v \<noteq> None" "isArray v \<noteq> None"
    and "content v = d @ body @ d"
    and "d = [CHR 0x27, CHR 0x27, CHR 0x27] \<or>
         (d = [CHR 0x27] \<and> \<not> startsWith (content v) [CHR 0x27, CHR 0x27, CHR 0x27])"
  shows "\<exists>v'. TycoValue_renderBaseContent h v = Inr v' \<and>
     rendered v' = RStr (literal_interior h d body) \<and>
     renderReferences h ctx (Value v') = Inr (Value v') \<and>
     TycoValue_renderTemplates h ctx par v' = Inr v'"
proof -
  have q: "startsWith (content v) [CHR 0x27]"
    using assms(5,6) by (auto simp: startsWith_def)
  have nn: "content v \<noteq> ''null''" using q by (auto simp: startsWith_def)
  have rs: "render_str h (content v) = literal_interior h d body"
  proof (cases "d = [CHR 0x27, CHR 0x27, CHR 0x27]")
    case True
    have t: "startsWith (content v) [CHR 0x27, CHR 0x27, CHR 0x27]"
      using True assms(5) by (simp add: startsWith_def)
    have m: "substring (content v) 3 (int (length (content v)) - 3) = body"
      using substring_middle[of d body d] True assms(5) by simp
    show ?thesis
      unfolding render_str_def using t
      by (simp add: m Let_def literal_interior_def True substring_drop)
  next
    case False
    then have d: "d = [CHR 0x27]" and nt: "\<not> startsWith (content v) [CHR 0x27, CHR 0x27, CHR 0x27]"
      using assms(6) by auto
    have nd: "\<not> startsWith (content v) [CHR 0x22, CHR 0x22, CHR 0x22]"
      using assms(5) d by (simp add: startsWith_def)
    have m: "substring (content v) 1 (int (length (content v)) - 1) = body"
      using substring_middle[of d body d] d assms(5) by simp
    show ?thesis
      unfolding render_str_def using nt nd q
      by (simp add: m literal_interior_def d)
  qed
  define v' where "v' = v\<lparr>isLiteralStr := True, rendered := RStr (literal_interior h d body)\<rparr>"
  have b: "TycoValue_renderBaseContent h v = Inr v'"
    using assms(1-4) nn q by (simp add: TycoValue_renderBaseContent_def rs v'_def)
  have t: "TycoValue_renderTemplates h ctx par v' = Inr v'"
    by (simp add: TycoValue_renderTemplates_def v'_def)
  show ?thesis using b t by (intro exI[of _ v']) (simp add: v'_def)
qed

theorem literal_string_fixed_witness:
  "TycoValue_renderBaseContent sample_host ex_literal =
     Inr (ex_literal\<lparr>isLiteralStr := True, rendered := RStr ''no {subst}''\<rparr>) \<and>
   TycoValue_renderTemplates sample_host ex_template_ctx PGlobals
       (ex_literal\<lparr>isLiteralStr := True, rendered := RStr ''no {subst}''\<rparr>) =
     Inr (ex_literal\<lparr>isLiteralStr := True, rendered := RStr ''no {subst}''\<rparr>)"
proof -
  have b: "TycoValue_renderBaseContent sample_host ex_literal =
     Inr (ex_literal\<lparr>isLiteralStr := True, rendered := RStr ''no {subst}''\<rparr>)"
    by (simp add: TycoValue_renderBaseContent_def ex_literal_def render_str_def startsWith_def
        substring_def sample_host_def)
  show ?thesis
    using literal_string_fixed[of ex_literal "[CHR 0x27, CHR 0x27, CHR 0x27]"
        "CHR 0x0A # ''no {subst}''" sample_host ex_template_ctx PGlobals]
    unfolding b by (auto simp: ex_literal_def)
qed

lemma split_dot_no_dot: "CHR ''.'' \<notin> set g \<Longrightarrow> split_dot g = [g]"
  by (induction g) auto

lemma split_dot_global: "CHR ''.'' \<notin> set g \<Longrightarrow> split_dot (''global.'' @ g) = [''global'', g]"
  by (simp add: split_dot_no_dot)

text \<open>
  The path \<open>global.g\<close> from a parent that has neither an attribute \<open>global\<close> nor an
  attribute \<open>global.g\<close>: the first segment is not found, so it is merged with the second;
  the merged segment is not found either, and it is not the word \<open>global\<close>, so the
  lookup fails without the \<open>globals\<close> map having been tried.
\<close>

lemma global_path_fails:
  assumes "tryGetAttr ctx (OParent par) ''global'' = Inr None"
    and "tryGetAttr ctx (OParent par) (''global.'' @ g) = Inr None"
    and "CHR ''.'' \<notin> set g"
  shows "templateRender h ctx par (''global.'' @ g) = Inl UnknownAttr"
proof -
  define p where "p = ''global.'' @ g"
  have r: "resolve ctx ''global'' (OParent par) [''global'', g] = Inl UnknownAttr"
    using assms(1,2) by (simp add: resolve.simps)
  have sd: "split_dot p = [''global'', g]"
    unfolding p_def by (rule split_dot_global[OF assms(3)])
  have ns: "\<not> startsWith p ''..''" and ne: "p \<noteq> []"
    by (simp_all add: p_def startsWith_def)
  have "templateRender h ctx par p = Inl UnknownAttr"
    unfolding templateRender_def by (simp add: ns ne sd r)
  then show ?thesis by (simp only: p_def)
qed

text \<open>
  C1 says that \<open>{global.g}\<close> falls back to the \<open>globals\<close> map when the lookup from the
  parent fails. On the field \<open>s: "{global.g}"\<close> of a row of \<open>T\<close>, with a global \<open>g\<close>
  rendered to \<open>hello\<close>, \<open>renderTemplates\<close> fails with \<open>UnknownAttr\<close> instead.
\<close>

theorem global_template_fails:
  "map_of (globals ex_template_ctx) ''g'' =
      Some (ex_value (Def ''str'') (Def ''g'') ''hello'' (RStr ''hello'')) \<and>
   TycoValue_renderTemplates sample_host ex_template_ctx (PInstance ex_T_row PNull) ex_s =
      Inl UnknownAttr"
proof -
  have a: "tryGetAttr ex_template_ctx (OParent (PInstance ex_T_row PNull)) ''global'' = Inr None"
    by (simp add: ex_T_row_def)
  have b: "tryGetAttr ex_template_ctx (OParent (PInstance ex_T_row PNull)) (''global.'' @ ''g'') = Inr None"
    by (simp add: ex_T_row_def)
  have t: "templateRender sample_host ex_template_ctx (PInstance ex_T_row PNull) ''global.g'' = Inl UnknownAttr"
    using global_path_fails[OF a b] by simp
  have rt: "replace_templates f ''{global.g}'' = (case f ''global.g'' of Inl e \<Rightarrow> Inl e | Inr r \<Rightarrow> Inr r)" for f
    by (simp add: replace_templates.simps(2)[of f "CHR ''{''"] replace_templates.simps(1)
        is_path_char_def is_word_def split: sum.splits)
  have g: "map_of (globals ex_template_ctx) ''g'' =
      Some (ex_value (Def ''str'') (Def ''g'') ''hello'' (RStr ''hello''))"
    by (simp add: ex_template_ctx_def ex_g_def)
  have f: "TycoValue_renderTemplates sample_host ex_template_ctx (PInstance ex_T_row PNull) ex_s =
      Inl UnknownAttr"
    by (simp add: TycoValue_renderTemplates_def ex_s_def rt t)
  show ?thesis using g f by simp
qed

text \<open>The value that C1 promises for the field, \<open>hello\<close>, is not what the code returns.\<close>

theorem global_template_fails_witness:
  "TycoValue_renderTemplates sample_host ex_template_ctx (PInstance ex_T_row PNull) ex_s \<noteq>
     Inr (ex_s\<lparr>rendered := RStr ''hello''\<rparr>)"
  using global_template_fails by simp

subsection \<open>Serialization\<close>


























subsection \<open>Includes\<close>

lemma include_a: "include_target (include_line ''/a.tyco'') = Some ''/a.tyco''"
  by (simp add: include_line_def include_target_def trimEnd_def is_ws_def startsWith_def)

lemma include_b: "include_target (include_line ''/b.tyco'') = Some ''/b.tyco''"
  by (simp add: include_line_def include_target_def trimEnd_def is_ws_def startsWith_def)

lemma fragments_a:
  "coerceContentToFragments (include_line ''/b.tyco'') (Some ''/a.tyco'') =
     [\<lparr>text_of = include_line ''/b.tyco'', row = 1, column = 1,
       source = Some ''/a.tyco'', lineText = ''#include /b.tyco''\<rparr>]"
  by (simp add: include_line_def coerceContentToFragments_def line_fragment_def)

lemma fragments_b:
  "coerceContentToFragments (include_line ''/a.tyco'') (Some ''/b.tyco'') =
     [\<lparr>text_of = include_line ''/a.tyco'', row = 1, column = 1,
       source = Some ''/b.tyco'', lineText = ''#include /a.tyco''\<rparr>]"
  by (simp add: include_line_def coerceContentToFragments_def line_fragment_def)

lemma process_include_diverges:
  assumes "lines lx = [f]" "include_target (text_of f) = Some p" "isAbsolute env p"
    and "\<And>m. m < n \<Longrightarrow> fromPath m env ctx p = None"
  shows "process n env ctx lx = None"
proof (cases n)
  case 0
  then show ?thesis by simp
next
  case (Suc m)
  then have "fromPath m env ctx p = None" using assms(4) by simp
  then show ?thesis using assms(1-3) Suc by simp
qed

lemma cyclic_fromPath:
  assumes "map_of (pathCache ctx) ''/a.tyco'' = None" "map_of (pathCache ctx) ''/b.tyco'' = None"
  shows "fromPath n (cyclic_env j d) ctx ''/a.tyco'' = None \<and>
         fromPath n (cyclic_env j d) ctx ''/b.tyco'' = None"
proof (induction n rule: less_induct)
  case (less n)
  show ?case
  proof (cases n)
    case 0
    then show ?thesis by simp
  next
    case (Suc k)
    have abs: "isAbsolute (cyclic_env j d) ''/a.tyco''" "isAbsolute (cyclic_env j d) ''/b.tyco''"
      by (simp_all add: cyclic_env_def posix_isAbsolute_def startsWith_def)
    have fl: "files (cyclic_env j d) ''/a.tyco'' = Some (include_line ''/b.tyco'')"
      "files (cyclic_env j d) ''/b.tyco'' = Some (include_line ''/a.tyco'')"
      by (simp_all add: cyclic_env_def cyclic_files_def)
    have IHa: "\<And>m. m < k \<Longrightarrow> fromPath m (cyclic_env j d) ctx ''/a.tyco'' = None"
      and IHb: "\<And>m. m < k \<Longrightarrow> fromPath m (cyclic_env j d) ctx ''/b.tyco'' = None"
      using less Suc by simp_all
    have pa: "process k (cyclic_env j d) ctx
        \<lparr>lines = coerceContentToFragments (include_line ''/b.tyco'') (Some ''/a.tyco''),
         path = Some ''/a.tyco'', defaults = []\<rparr> = None"
    proof (rule process_include_diverges[OF _ _ abs(2) IHb])
      show "lines \<lparr>lines = coerceContentToFragments (include_line ''/b.tyco'') (Some ''/a.tyco''),
         path = Some ''/a.tyco'', defaults = []\<rparr> =
         [\<lparr>text_of = include_line ''/b.tyco'', row = 1, column = 1,
           source = Some ''/a.tyco'', lineText = ''#include /b.tyco''\<rparr>]"
        by (simp add: fragments_a)
      show "include_target (text_of \<lparr>text_of = include_line ''/b.tyco'', row = 1, column = 1,
           source = Some ''/a.tyco'', lineText = ''#include /b.tyco''\<rparr>) = Some ''/b.tyco''"
        by (simp add: include_b)
    qed
    have pb: "process k (cyclic_env j d) ctx
        \<lparr>lines = coerceContentToFragments (include_line ''/a.tyco'') (Some ''/b.tyco''),
         path = Some ''/b.tyco'', defaults = []\<rparr> = None"
    proof (rule process_include_diverges[OF _ _ abs(1) IHa])
      show "lines \<lparr>lines = coerceContentToFragments (include_line ''/a.tyco'') (Some ''/b.tyco''),
         path = Some ''/b.tyco'', defaults = []\<rparr> =
         [\<lparr>text_of = include_line ''/a.tyco'', row = 1, column = 1,
           source = Some ''/b.tyco'', lineText = ''#include /a.tyco''\<rparr>]"
        by (simp add: fragments_b)
      show "include_target (text_of \<lparr>text_of = include_line ''/a.tyco'', row = 1, column = 1,
           source = Some ''/b.tyco'', lineText = ''#include /a.tyco''\<rparr>) = Some ''/a.tyco''"
        by (simp add: include_a)
    qed
    show ?thesis
      unfolding Suc using assms fl pa pb by (simp)
  qed
qed

text \<open>
  C2 says that parsing ends on a cycle of includes because the second visit to a file
  finds it in the path cache. For the files \<open>/a.tyco\<close>, holding \<open>#include /b.tyco\<close>, and
  \<open>/b.tyco\<close>, holding \<open>#include /a.tyco\<close>, it does not: \<open>fromPath\<close> enters a file into the
  cache only after the file has been processed, so neither file is in the cache while the
  other is being read, and \<open>parseFile\<close> does not return, whatever the fuel and whatever
  the rest of the lexer does.
\<close>

theorem include_cycle_diverges:
  "parseFile_lexing n (cyclic_env j d) ''/a.tyco'' = None"
  using cyclic_fromPath[of new_context n j d]
  by (simp add: parseFile_lexing_def new_context_def)

text \<open>
  Without a cycle the same functions return: when \<open>/b.tyco\<close> is empty, parsing \<open>/a.tyco\<close>
  ends with both files in the cache.
\<close>

lemma include_chain_returns:
  "parseFile_lexing (Suc (Suc (Suc (Suc 0)))) (chain_env j d) ''/a.tyco'' =
     Some (Inr (\<lparr>pathCache = [(''/b.tyco'', \<lparr>lines = [], path = Some ''/b.tyco'', defaults = []\<rparr>),
                              (''/a.tyco'', \<lparr>lines = [], path = Some ''/a.tyco'', defaults = []\<rparr>)],
                 structs = [], globals = []\<rparr>,
                \<lparr>lines = [], path = Some ''/a.tyco'', defaults = []\<rparr>))"
proof -
  have abs: "isAbsolute (chain_env j d) ''/b.tyco''"
    by (simp add: chain_env_def posix_isAbsolute_def startsWith_def)
  have fl: "files (chain_env j d) ''/a.tyco'' = Some (include_line ''/b.tyco'')"
    "files (chain_env j d) ''/b.tyco'' = Some []"
    by (simp_all add: chain_env_def chain_files_def)
  have e: "coerceContentToFragments [] (Some ''/b.tyco'') = []"
    by (simp add: coerceContentToFragments_def)
  show ?thesis
    by (simp add: parseFile_lexing_def new_context_def fl fragments_a include_b abs e Let_def)
qed

end
